theory Spec2Isabelle
  imports Main "HOL-Library.Char_ord" "HOL-Library.List_Lexorder" "HOL-Library.Product_Lexorder"
begin

section \<open>JavaScript values\<close>

text \<open>
  The store of \<^verbatim>\<open>src/lib/errorHandler.ts\<close> (the IndexedDB service) works on plain
  JavaScript objects: the TypeScript interfaces \<^verbatim>\<open>Project\<close>, \<^verbatim>\<open>Recording\<close> and
  \<^verbatim>\<open>AnalysisRecord\<close> are erased at run time. Values are therefore modelled untyped.
  Numbers are integers or \<^verbatim>\<open>NaN\<close> (fractions are left out), a \<^verbatim>\<open>Date\<close> is its time
  value in milliseconds or the invalid date, a \<^verbatim>\<open>Blob\<close> is its bytes and its MIME type,
  an object is the list of its own enumerable properties in enumeration order.
\<close>

datatype jsdate = ValidDate int | InvalidDate

datatype jsval =
    Undefined
  | Null
  | Bool bool
  | Num int
  | NaN
  | Str string
  | Date jsdate
  | Blob "nat list" string
  | Arr "jsval list"
  | Obj "(string \<times> jsval) list"

type_synonym fields = "(string \<times> jsval) list"

text \<open>
  What the JavaScript engine and the clock supply: \<^verbatim>\<open>Date.prototype.toISOString\<close>, the
  parser behind \<^verbatim>\<open>new Date(string)\<close>, \<^verbatim>\<open>ToString\<close> of a value that is not a
  primitive, the successive readings of the clock (\<^verbatim>\<open>new Date()\<close>, \<^verbatim>\<open>Date.now()\<close>) and
  the successive values of \<^verbatim>\<open>Math.random().toString(36).substr(2, 9)\<close>.
\<close>

record runtime =
  toISOString :: "int \<Rightarrow> string"
  dateParse :: "string \<Rightarrow> jsdate"
  toStringOf :: "jsval \<Rightarrow> string"
  clock :: "nat \<Rightarrow> int"
  random :: "nat \<Rightarrow> string"

datatype error = DataError | ConstraintError | TypeError | SyntaxError

fun truthy :: "jsval \<Rightarrow> bool" where
  "truthy Undefined = False"
| "truthy Null = False"
| "truthy (Bool b) = b"
| "truthy (Num n) = (n \<noteq> 0)"
| "truthy NaN = False"
| "truthy (Str s) = (s \<noteq> [])"
| "truthy _ = True"

text \<open>Property read \<^verbatim>\<open>obj.k\<close>; the receivers in this module are objects read from a store.\<close>

fun getProp :: "string \<Rightarrow> jsval \<Rightarrow> jsval" where
  "getProp k (Obj fs) = (case map_of fs k of Some v \<Rightarrow> v | None \<Rightarrow> Undefined)"
| "getProp k _ = Undefined"

text \<open>Property write \<^verbatim>\<open>obj[k] = v\<close>: in place when the key exists, appended otherwise.\<close>

fun setProp :: "string \<Rightarrow> jsval \<Rightarrow> fields \<Rightarrow> fields" where
  "setProp k v [] = [(k, v)]"
| "setProp k v (p # ps) = (if fst p = k then (k, v) # ps else p # setProp k v ps)"

text \<open>Object spread \<^verbatim>\<open>{...a, ...b}\<close>: the properties of \<open>b\<close> are written onto those of \<open>a\<close>.\<close>

fun assign :: "fields \<Rightarrow> fields \<Rightarrow> fields" where
  "assign fs [] = fs"
| "assign fs (p # ps) = assign (setProp (fst p) (snd p) fs) ps"

text \<open>The own enumerable properties that \<^verbatim>\<open>{...v}\<close> copies; a Date and a Blob have none.\<close>

fun ownFields :: "jsval \<Rightarrow> fields" where
  "ownFields (Obj fs) = fs"
| "ownFields _ = []"

text \<open>Array spread \<^verbatim>\<open>[...v]\<close>: an array or a string is iterable, the rest raises.\<close>

fun spreadArray :: "jsval \<Rightarrow> error + jsval list" where
  "spreadArray (Arr xs) = Inr xs"
| "spreadArray (Str s) = Inr (map (\<lambda>c. Str [c]) s)"
| "spreadArray _ = Inl TypeError"

text \<open>\<^verbatim>\<open>a === b\<close> where the two sides never are the same object.\<close>

fun strictEq :: "jsval \<Rightarrow> jsval \<Rightarrow> bool" where
  "strictEq Undefined Undefined = True"
| "strictEq Null Null = True"
| "strictEq (Bool a) (Bool b) = (a = b)"
| "strictEq (Num a) (Num b) = (a = b)"
| "strictEq (Str a) (Str b) = (a = b)"
| "strictEq _ _ = False"

section \<open>Codec\<close>

text \<open>
  \<^verbatim>\<open>JSON.parse(JSON.stringify(v))\<close> for a value inside an object or array: \<open>None\<close> is a
  value that \<^verbatim>\<open>JSON.stringify\<close> leaves out. A Date goes through \<^verbatim>\<open>toJSON\<close>, a Blob
  has no enumerable property and becomes \<^verbatim>\<open>{}\<close>.
\<close>

fun jsonValue :: "runtime \<Rightarrow> jsval \<Rightarrow> jsval option" where
  "jsonValue rt Undefined = None"
| "jsonValue rt Null = Some Null"
| "jsonValue rt (Bool b) = Some (Bool b)"
| "jsonValue rt (Num n) = Some (Num n)"
| "jsonValue rt NaN = Some Null"
| "jsonValue rt (Str s) = Some (Str s)"
| "jsonValue rt (Date (ValidDate t)) = Some (Str (toISOString rt t))"
| "jsonValue rt (Date InvalidDate) = Some Null"
| "jsonValue rt (Blob bytes mime) = Some (Obj [])"
| "jsonValue rt (Arr xs) =
     Some (Arr (map (\<lambda>x. case jsonValue rt x of None \<Rightarrow> Null | Some j \<Rightarrow> j) xs))"
| "jsonValue rt (Obj fs) =
     Some (Obj (concat (map (\<lambda>kv. case jsonValue rt (snd kv) of
                                     None \<Rightarrow> [] | Some j \<Rightarrow> [(fst kv, j)]) fs)))"

text \<open>\<^verbatim>\<open>serializeForStorage\<close>: \<^verbatim>\<open>JSON.parse(undefined)\<close> raises a SyntaxError.\<close>

definition serializeForStorage :: "runtime \<Rightarrow> jsval \<Rightarrow> error + jsval" where
  "serializeForStorage rt obj =
     (case jsonValue rt obj of None \<Rightarrow> Inl SyntaxError | Some j \<Rightarrow> Inr j)"

text \<open>The regular expression \<^verbatim>\<open>/^\d{4}-\d{2}-\d{2}T\d{2}:\d{2}:\d{2}/\<close>.\<close>

datatype atom = Digit | Lit char

definition isDigit :: "char \<Rightarrow> bool" where
  "isDigit c = (c \<in> set ''0123456789'')"

fun matchPrefix :: "atom list \<Rightarrow> string \<Rightarrow> bool" where
  "matchPrefix [] s = True"
| "matchPrefix (a # as) [] = False"
| "matchPrefix (Digit # as) (c # cs) = (isDigit c \<and> matchPrefix as cs)"
| "matchPrefix (Lit l # as) (c # cs) = (c = l \<and> matchPrefix as cs)"

definition isoPattern :: "atom list" where
  "isoPattern =
     [Digit, Digit, Digit, Digit, Lit (CHR ''-''), Digit, Digit, Lit (CHR ''-''), Digit, Digit,
      Lit (CHR ''T''), Digit, Digit, Lit (CHR '':''), Digit, Digit, Lit (CHR '':''), Digit, Digit]"

definition isoLike :: "string \<Rightarrow> bool" where
  "isoLike s = matchPrefix isoPattern s"

text \<open>
  \<^verbatim>\<open>deserializeFromStorage\<close>: an array is mapped, any other object is copied with
  \<^verbatim>\<open>{...obj}\<close> and each property that is a string of the shape above becomes a Date,
  each property that is an object is decoded in turn; a primitive is returned as it is.
\<close>

fun deserializeFromStorage :: "runtime \<Rightarrow> jsval \<Rightarrow> jsval" where
  "deserializeFromStorage rt (Arr xs) = Arr (map (deserializeFromStorage rt) xs)"
| "deserializeFromStorage rt (Obj fs) =
     Obj (map (\<lambda>kv. (fst kv,
            (case snd kv of
               Str s \<Rightarrow> if isoLike s then Date (dateParse rt s) else Str s
             | Arr xs \<Rightarrow> deserializeFromStorage rt (Arr xs)
             | Obj gs \<Rightarrow> deserializeFromStorage rt (Obj gs)
             | Date d \<Rightarrow> deserializeFromStorage rt (Date d)
             | Blob b m \<Rightarrow> deserializeFromStorage rt (Blob b m)
             | v \<Rightarrow> v))) fs)"
| "deserializeFromStorage rt (Date d) = Obj []"
| "deserializeFromStorage rt (Blob b m) = Obj []"
| "deserializeFromStorage rt v = v"

section \<open>Object stores\<close>

text \<open>
  An object store with key path \<^verbatim>\<open>id\<close> holds its records in the order of their keys.
  Every record this module writes has a generated string as its \<^verbatim>\<open>id\<close>, so the keys
  of the model are strings (compared by character code); a record whose \<^verbatim>\<open>id\<close> is
  anything else is refused, as IndexedDB refuses one without a valid key.
\<close>

type_synonym store = "(string \<times> jsval) list"

record world =
  projects :: store
  recordings :: store
  analyses :: store
  clockReads :: nat
  randomDraws :: nat

text \<open>The values IndexedDB accepts as a key for a lookup.\<close>

fun validKey :: "jsval \<Rightarrow> bool" where
  "validKey (Num n) = True"
| "validKey (Str s) = True"
| "validKey (Date (ValidDate t)) = True"
| "validKey (Arr xs) = list_all validKey xs"
| "validKey _ = False"

definition hasKey :: "string \<Rightarrow> store \<Rightarrow> bool" where
  "hasKey k st = (k \<in> set (map fst st))"

text \<open>\<^verbatim>\<open>store.add(value)\<close>: fails when the key is taken.\<close>

definition idbAdd :: "jsval \<Rightarrow> store \<Rightarrow> error + store" where
  "idbAdd v st =
     (case getProp ''id'' v of
        Str k \<Rightarrow> if hasKey k st then Inl ConstraintError else Inr (insort_key fst (k, v) st)
      | _ \<Rightarrow> Inl DataError)"

text \<open>\<^verbatim>\<open>store.put(value)\<close>: replaces the record with that key, or inserts.\<close>

definition idbPut :: "jsval \<Rightarrow> store \<Rightarrow> error + store" where
  "idbPut v st =
     (case getProp ''id'' v of
        Str k \<Rightarrow> if hasKey k st
                 then Inr (map (\<lambda>kv. if fst kv = k then (k, v) else kv) st)
                 else Inr (insort_key fst (k, v) st)
      | _ \<Rightarrow> Inl DataError)"

text \<open>\<^verbatim>\<open>store.get(key)\<close>.\<close>

definition idbGet :: "jsval \<Rightarrow> store \<Rightarrow> error + jsval option" where
  "idbGet key st =
     (if validKey key then Inr (case key of Str k \<Rightarrow> map_of st k | _ \<Rightarrow> None)
      else Inl DataError)"

text \<open>\<^verbatim>\<open>store.delete(key)\<close>: succeeds whether or not a record had the key.\<close>

definition idbDelete :: "jsval \<Rightarrow> store \<Rightarrow> error + store" where
  "idbDelete key st =
     (if validKey key then Inr (case key of Str k \<Rightarrow> filter (\<lambda>kv. fst kv \<noteq> k) st | _ \<Rightarrow> st)
      else Inl DataError)"

text \<open>
  The entries of the index on a field, each with its index key and primary key. Every
  indexed field is written by this module as a string (an id, or the JSON form of a
  Date), so the index keys of the model are strings: a record whose field is no string has
  no entry here.
\<close>

fun indexEntries :: "string \<Rightarrow> store \<Rightarrow> ((string \<times> string) \<times> jsval) list" where
  "indexEntries field [] = []"
| "indexEntries field (kv # st) =
     (case getProp field (snd kv) of
        Str s \<Rightarrow> ((s, fst kv), snd kv) # indexEntries field st
      | _ \<Rightarrow> indexEntries field st)"

text \<open>
  \<^verbatim>\<open>store.index(field).getAll(key)\<close>: the records whose field is the key, in the order
  of their primary keys. With \<^verbatim>\<open>undefined\<close> or \<^verbatim>\<open>null\<close> as the key the range is
  unbounded and every record of the index is returned, by index key and then primary key.
\<close>

definition indexGetAll :: "string \<Rightarrow> jsval \<Rightarrow> store \<Rightarrow> error + jsval list" where
  "indexGetAll field key st =
     (case key of
        Undefined \<Rightarrow> Inr (map snd (sort_key fst (indexEntries field st)))
      | Null \<Rightarrow> Inr (map snd (sort_key fst (indexEntries field st)))
      | _ \<Rightarrow>
          if validKey key then Inr (map snd (filter (\<lambda>kv. getProp field (snd kv) = key) st))
          else Inl DataError)"

text \<open>
  \<^verbatim>\<open>store.index(field).openCursor(null, 'prev')\<close>: the records of the index, by
  descending index key and then descending primary key.
\<close>

definition cursorPrev :: "string \<Rightarrow> store \<Rightarrow> jsval list" where
  "cursorPrev field st = map snd (rev (sort_key fst (indexEntries field st)))"

section \<open>Clock and identifiers\<close>

text \<open>The decimal digits of a number that is not negative.\<close>

definition digitChar :: "int \<Rightarrow> char" where
  "digitChar n = ''0123456789'' ! nat (n mod 10)"

function showDigits :: "int \<Rightarrow> string" where
  "showDigits n = (if n < 10 then [digitChar n] else showDigits (n div 10) @ [digitChar n])"
  by pat_completeness auto
termination
  by (relation "measure nat") auto

definition showInt :: "int \<Rightarrow> string" where
  "showInt i = (if i < 0 then CHR ''-'' # showDigits (- i) else showDigits i)"

text \<open>\<^verbatim>\<open>new Date()\<close>: the next reading of the clock.\<close>

definition newDate :: "runtime \<Rightarrow> world \<Rightarrow> int \<times> world" where
  "newDate rt w = (clock rt (clockReads w), w\<lparr>clockReads := Suc (clockReads w)\<rparr>)"

text \<open>\<^verbatim>\<open>generateId\<close>: \<^verbatim>\<open>`${Date.now()}_${Math.random().toString(36).substr(2, 9)}`\<close>.\<close>

definition generateId :: "runtime \<Rightarrow> world \<Rightarrow> string \<times> world" where
  "generateId rt w =
     (showInt (clock rt (clockReads w)) @ ''_'' @ random rt (randomDraws w),
      w\<lparr>clockReads := Suc (clockReads w), randomDraws := Suc (randomDraws w)\<rparr>)"

section \<open>Project CRUD\<close>

definition createProject :: "runtime \<Rightarrow> fields \<Rightarrow> world \<Rightarrow> (error + jsval) \<times> world" where
  "createProject rt input w =
     (case newDate rt w of (now, w1) \<Rightarrow>
     (case generateId rt w1 of (pid, w2) \<Rightarrow>
     (let project = Obj
            [(''id'', Str pid),
             (''name'', getProp ''name'' (Obj input)),
             (''description'', getProp ''description'' (Obj input)),
             (''status'', Str ''draft''),
             (''createdAt'', Date (ValidDate now)),
             (''updatedAt'', Date (ValidDate now)),
             (''meetingVariables'', getProp ''meetingVariables'' (Obj input)),
             (''meetingPlan'', getProp ''meetingPlan'' (Obj input)),
             (''checklist'', getProp ''checklist'' (Obj input)),
             (''recordingIds'', Arr [])]
      in (case serializeForStorage rt project of
            Inl e \<Rightarrow> (Inl e, w2)
          | Inr stored \<Rightarrow>
              (case idbAdd stored (projects w2) of
                 Inl e \<Rightarrow> (Inl e, w2)
               | Inr st \<Rightarrow> (Inr project, w2\<lparr>projects := st\<rparr>))))))"

text \<open>A read resolves with \<^verbatim>\<open>null\<close> (\<open>Null\<close>) when no record has the key.\<close>

definition found :: "runtime \<Rightarrow> jsval option \<Rightarrow> jsval" where
  "found rt r =
     (case r of None \<Rightarrow> Null
      | Some v \<Rightarrow> if truthy v then deserializeFromStorage rt v else Null)"

definition getProject :: "runtime \<Rightarrow> jsval \<Rightarrow> world \<Rightarrow> error + jsval" where
  "getProject rt key w =
     (case idbGet key (projects w) of Inl e \<Rightarrow> Inl e | Inr r \<Rightarrow> Inr (found rt r))"

definition getAllProjects :: "runtime \<Rightarrow> world \<Rightarrow> jsval list" where
  "getAllProjects rt w = map (deserializeFromStorage rt) (cursorPrev ''updatedAt'' (projects w))"

definition updateProject :: "runtime \<Rightarrow> jsval \<Rightarrow> fields \<Rightarrow> world \<Rightarrow> (error + jsval) \<times> world" where
  "updateProject rt key input w =
     (case getProject rt key w of
        Inl e \<Rightarrow> (Inl e, w)
      | Inr existing \<Rightarrow>
          if \<not> truthy existing then (Inr Null, w)
          else (case newDate rt w of (now, w1) \<Rightarrow>
            (let updated = Obj (setProp ''updatedAt'' (Date (ValidDate now))
                                  (assign (ownFields existing) input))
             in (case serializeForStorage rt updated of
                   Inl e \<Rightarrow> (Inl e, w1)
                 | Inr stored \<Rightarrow>
                     (case idbPut stored (projects w1) of
                        Inl e \<Rightarrow> (Inl e, w1)
                      | Inr st \<Rightarrow> (Inr updated, w1\<lparr>projects := st\<rparr>))))))"

section \<open>Reads of recordings and analyses\<close>

definition getRecording :: "runtime \<Rightarrow> jsval \<Rightarrow> world \<Rightarrow> error + jsval" where
  "getRecording rt key w =
     (case idbGet key (recordings w) of Inl e \<Rightarrow> Inl e | Inr r \<Rightarrow> Inr (found rt r))"

definition getRecordingsByProject :: "runtime \<Rightarrow> jsval \<Rightarrow> world \<Rightarrow> error + jsval list" where
  "getRecordingsByProject rt projectId w =
     (case indexGetAll ''projectId'' projectId (recordings w) of
        Inl e \<Rightarrow> Inl e
      | Inr results \<Rightarrow> Inr (map (deserializeFromStorage rt) results))"

definition getAnalysis :: "runtime \<Rightarrow> jsval \<Rightarrow> world \<Rightarrow> error + jsval" where
  "getAnalysis rt key w =
     (case idbGet key (analyses w) of Inl e \<Rightarrow> Inl e | Inr r \<Rightarrow> Inr (found rt r))"

definition getAnalysesByRecording :: "runtime \<Rightarrow> jsval \<Rightarrow> world \<Rightarrow> error + jsval list" where
  "getAnalysesByRecording rt recordingId w =
     (case indexGetAll ''recordingId'' recordingId (analyses w) of
        Inl e \<Rightarrow> Inl e
      | Inr results \<Rightarrow> Inr (map (deserializeFromStorage rt) results))"

definition getAnalysesByProject :: "runtime \<Rightarrow> jsval \<Rightarrow> world \<Rightarrow> error + jsval list" where
  "getAnalysesByProject rt projectId w =
     (case indexGetAll ''projectId'' projectId (analyses w) of
        Inl e \<Rightarrow> Inl e
      | Inr results \<Rightarrow> Inr (map (deserializeFromStorage rt) results))"

section \<open>Deletion\<close>

definition deleteAnalysis :: "runtime \<Rightarrow> jsval \<Rightarrow> world \<Rightarrow> (error + bool) \<times> world" where
  "deleteAnalysis rt key w =
     (case idbDelete key (analyses w) of
        Inl e \<Rightarrow> (Inl e, w)
      | Inr st \<Rightarrow> (Inr True, w\<lparr>analyses := st\<rparr>))"

text \<open>\<^verbatim>\<open>for (const analysis of analyses) await deleteAnalysis(analysis.id)\<close>.\<close>

fun deleteAnalyses :: "runtime \<Rightarrow> jsval list \<Rightarrow> world \<Rightarrow> (error + unit) \<times> world" where
  "deleteAnalyses rt [] w = (Inr (), w)"
| "deleteAnalyses rt (a # as) w =
     (case deleteAnalysis rt (getProp ''id'' a) w of
        (Inl e, w1) \<Rightarrow> (Inl e, w1)
      | (Inr b, w1) \<Rightarrow> deleteAnalyses rt as w1)"

text \<open>\<^verbatim>\<open>project.recordingIds.filter(rid => rid !== id)\<close>.\<close>

definition withoutId :: "jsval \<Rightarrow> jsval \<Rightarrow> error + jsval" where
  "withoutId recordingIds key =
     (case recordingIds of
        Arr xs \<Rightarrow> Inr (Arr (filter (\<lambda>rid. \<not> strictEq rid key) xs))
      | _ \<Rightarrow> Inl TypeError)"

text \<open>The second step of \<^verbatim>\<open>deleteRecording\<close>: the id is taken out of the parent's list.\<close>

definition unlinkRecording :: "runtime \<Rightarrow> jsval \<Rightarrow> world \<Rightarrow> (error + unit) \<times> world" where
  "unlinkRecording rt key w =
     (case getRecording rt key w of
        Inl e \<Rightarrow> (Inl e, w)
      | Inr recording \<Rightarrow>
          if \<not> truthy recording then (Inr (), w)
          else (case getProject rt (getProp ''projectId'' recording) w of
            Inl e \<Rightarrow> (Inl e, w)
          | Inr project \<Rightarrow>
              if \<not> truthy project then (Inr (), w)
              else (case withoutId (getProp ''recordingIds'' project) key of
                Inl e \<Rightarrow> (Inl e, w)
              | Inr ids \<Rightarrow>
                  (case updateProject rt (getProp ''projectId'' recording)
                          [(''recordingIds'', ids)] w of
                     (Inl e, w1) \<Rightarrow> (Inl e, w1)
                   | (Inr p, w1) \<Rightarrow> (Inr (), w1)))))"

definition deleteRecording :: "runtime \<Rightarrow> jsval \<Rightarrow> world \<Rightarrow> (error + bool) \<times> world" where
  "deleteRecording rt key w =
     (case getAnalysesByRecording rt key w of
        Inl e \<Rightarrow> (Inl e, w)
      | Inr as \<Rightarrow>
          (case deleteAnalyses rt as w of
             (Inl e, w1) \<Rightarrow> (Inl e, w1)
           | (Inr u, w1) \<Rightarrow>
               (case unlinkRecording rt key w1 of
                  (Inl e, w2) \<Rightarrow> (Inl e, w2)
                | (Inr u', w2) \<Rightarrow>
                    (case idbDelete key (recordings w2) of
                       Inl e \<Rightarrow> (Inl e, w2)
                     | Inr st \<Rightarrow> (Inr True, w2\<lparr>recordings := st\<rparr>)))))"

text \<open>\<^verbatim>\<open>for (const recording of recordings) await deleteRecording(recording.id)\<close>.\<close>

fun deleteRecordings :: "runtime \<Rightarrow> jsval list \<Rightarrow> world \<Rightarrow> (error + unit) \<times> world" where
  "deleteRecordings rt [] w = (Inr (), w)"
| "deleteRecordings rt (r # rs) w =
     (case deleteRecording rt (getProp ''id'' r) w of
        (Inl e, w1) \<Rightarrow> (Inl e, w1)
      | (Inr b, w1) \<Rightarrow> deleteRecordings rt rs w1)"

definition deleteProject :: "runtime \<Rightarrow> jsval \<Rightarrow> world \<Rightarrow> (error + bool) \<times> world" where
  "deleteProject rt key w =
     (case getRecordingsByProject rt key w of
        Inl e \<Rightarrow> (Inl e, w)
      | Inr rs \<Rightarrow>
          (case deleteRecordings rt rs w of
             (Inl e, w1) \<Rightarrow> (Inl e, w1)
           | (Inr u, w1) \<Rightarrow>
               (case idbDelete key (projects w1) of
                  Inl e \<Rightarrow> (Inl e, w1)
                | Inr st \<Rightarrow> (Inr True, w1\<lparr>projects := st\<rparr>))))"

section \<open>Creation of recordings and analyses\<close>

text \<open>\<^verbatim>\<open>input.audioBlob.size\<close>: reading a property of \<^verbatim>\<open>undefined\<close> or \<^verbatim>\<open>null\<close> raises.\<close>

fun blobSize :: "jsval \<Rightarrow> error + jsval" where
  "blobSize (Blob bytes mime) = Inr (Num (int (length bytes)))"
| "blobSize Undefined = Inl TypeError"
| "blobSize Null = Inl TypeError"
| "blobSize v = Inr (getProp ''size'' v)"

text \<open>
  The first step of \<^verbatim>\<open>createRecording\<close> after the record is built: the id is appended
  to the parent's list when the parent exists.
\<close>

definition linkRecording :: "runtime \<Rightarrow> jsval \<Rightarrow> string \<Rightarrow> world \<Rightarrow> (error + unit) \<times> world" where
  "linkRecording rt projectId rid w =
     (case getProject rt projectId w of
        Inl e \<Rightarrow> (Inl e, w)
      | Inr project \<Rightarrow>
          if \<not> truthy project then (Inr (), w)
          else (case spreadArray (getProp ''recordingIds'' project) of
            Inl e \<Rightarrow> (Inl e, w)
          | Inr ids \<Rightarrow>
              (case updateProject rt projectId
                      (setProp ''recordingIds'' (Arr (ids @ [Str rid])) (ownFields project)) w of
                 (Inl e, w1) \<Rightarrow> (Inl e, w1)
               | (Inr p, w1) \<Rightarrow> (Inr (), w1))))"

definition createRecording :: "runtime \<Rightarrow> fields \<Rightarrow> world \<Rightarrow> (error + jsval) \<times> world" where
  "createRecording rt input w =
     (case newDate rt w of (now, w1) \<Rightarrow>
     (case generateId rt w1 of (rid, w2) \<Rightarrow>
     (case blobSize (getProp ''audioBlob'' (Obj input)) of
        Inl e \<Rightarrow> (Inl e, w2)
      | Inr fileSize \<Rightarrow>
         (let recording = Obj
                [(''id'', Str rid),
                 (''projectId'', getProp ''projectId'' (Obj input)),
                 (''name'', getProp ''name'' (Obj input)),
                 (''createdAt'', Date (ValidDate now)),
                 (''duration'', getProp ''duration'' (Obj input)),
                 (''audioBlob'', getProp ''audioBlob'' (Obj input)),
                 (''mimeType'', getProp ''mimeType'' (Obj input)),
                 (''fileSize'', fileSize),
                 (''source'', getProp ''source'' (Obj input)),
                 (''transcript'', getProp ''transcript'' (Obj input)),
                 (''transcribedAt'',
                    if truthy (getProp ''transcript'' (Obj input))
                    then Date (ValidDate now) else Undefined),
                 (''analysisIds'', Arr [])]
          in (case linkRecording rt (getProp ''projectId'' (Obj input)) rid w2 of
                (Inl e, w3) \<Rightarrow> (Inl e, w3)
              | (Inr u, w3) \<Rightarrow>
                  (case serializeForStorage rt recording of
                     Inl e \<Rightarrow> (Inl e, w3)
                   | Inr stored \<Rightarrow>
                       (case idbAdd stored (recordings w3) of
                          Inl e \<Rightarrow> (Inl e, w3)
                        | Inr st \<Rightarrow> (Inr recording, w3\<lparr>recordings := st\<rparr>))))))))"

definition updateRecordingTranscript ::
  "runtime \<Rightarrow> jsval \<Rightarrow> jsval \<Rightarrow> world \<Rightarrow> (error + jsval) \<times> world" where
  "updateRecordingTranscript rt key transcript w =
     (case getRecording rt key w of
        Inl e \<Rightarrow> (Inl e, w)
      | Inr existing \<Rightarrow>
          if \<not> truthy existing then (Inr Null, w)
          else (case newDate rt w of (now, w1) \<Rightarrow>
            (let updated = Obj (setProp ''transcribedAt'' (Date (ValidDate now))
                                  (setProp ''transcript'' transcript (ownFields existing)))
             in (case serializeForStorage rt updated of
                   Inl e \<Rightarrow> (Inl e, w1)
                 | Inr stored \<Rightarrow>
                     (case idbPut stored (recordings w1) of
                        Inl e \<Rightarrow> (Inl e, w1)
                      | Inr st \<Rightarrow> (Inr updated, w1\<lparr>recordings := st\<rparr>))))))"

text \<open>
  The first step of \<^verbatim>\<open>createAnalysis\<close> after the record is built: the id is appended to
  the parent recording's list when the parent exists. The \<^verbatim>\<open>put\<close> is issued before the
  \<^verbatim>\<open>add\<close> of the analysis and is not awaited.
\<close>

definition linkAnalysis :: "runtime \<Rightarrow> jsval \<Rightarrow> string \<Rightarrow> world \<Rightarrow> (error + unit) \<times> world" where
  "linkAnalysis rt recordingId aid w =
     (case getRecording rt recordingId w of
        Inl e \<Rightarrow> (Inl e, w)
      | Inr recording \<Rightarrow>
          if \<not> truthy recording then (Inr (), w)
          else (case spreadArray (getProp ''analysisIds'' recording) of
            Inl e \<Rightarrow> (Inl e, w)
          | Inr ids \<Rightarrow>
              (case serializeForStorage rt
                      (Obj (setProp ''analysisIds'' (Arr (ids @ [Str aid])) (ownFields recording))) of
                 Inl e \<Rightarrow> (Inl e, w)
               | Inr stored \<Rightarrow>
                   (case idbPut stored (recordings w) of
                      Inl e \<Rightarrow> (Inl e, w)
                    | Inr st \<Rightarrow> (Inr (), w\<lparr>recordings := st\<rparr>)))))"

definition createAnalysis ::
  "runtime \<Rightarrow> jsval \<Rightarrow> jsval \<Rightarrow> jsval \<Rightarrow> jsval \<Rightarrow> jsval \<Rightarrow> world \<Rightarrow> (error + jsval) \<times> world" where
  "createAnalysis rt recordingId projectId checklistSnapshot result transcriptSnapshot w =
     (case newDate rt w of (now, w1) \<Rightarrow>
     (case generateId rt w1 of (aid, w2) \<Rightarrow>
     (let analysis = Obj
            [(''id'', Str aid),
             (''recordingId'', recordingId),
             (''projectId'', projectId),
             (''createdAt'', Date (ValidDate now)),
             (''checklistSnapshot'', checklistSnapshot),
             (''result'', result),
             (''transcriptSnapshot'', transcriptSnapshot)]
      in (case linkAnalysis rt recordingId aid w2 of
            (Inl e, w3) \<Rightarrow> (Inl e, w3)
          | (Inr u, w3) \<Rightarrow>
              (case serializeForStorage rt analysis of
                 Inl e \<Rightarrow> (Inl e, w3)
               | Inr stored \<Rightarrow>
                   (case idbAdd stored (analyses w3) of
                      Inl e \<Rightarrow> (Inl e, w3)
                    | Inr st \<Rightarrow> (Inr analysis, w3\<lparr>analyses := st\<rparr>)))))))"

definition clearAllData :: "world \<Rightarrow> world" where
  "clearAllData w = w\<lparr>projects := [], recordings := [], analyses := []\<rparr>"

section \<open>Statistics\<close>

text \<open>\<^verbatim>\<open>ToPrimitive\<close>, \<^verbatim>\<open>ToString\<close> and \<^verbatim>\<open>ToNumber\<close> as far as \<^verbatim>\<open>+=\<close> and \<^verbatim>\<open>obj[k]++\<close> need them.\<close>

fun toPrimitive :: "runtime \<Rightarrow> jsval \<Rightarrow> jsval" where
  "toPrimitive rt (Date d) = Str (toStringOf rt (Date d))"
| "toPrimitive rt (Blob b m) = Str (toStringOf rt (Blob b m))"
| "toPrimitive rt (Arr xs) = Str (toStringOf rt (Arr xs))"
| "toPrimitive rt (Obj fs) = Str (toStringOf rt (Obj fs))"
| "toPrimitive rt v = v"

fun toStr :: "jsval \<Rightarrow> string" where
  "toStr Undefined = ''undefined''"
| "toStr Null = ''null''"
| "toStr (Bool b) = (if b then ''true'' else ''false'')"
| "toStr (Num n) = showInt n"
| "toStr NaN = ''NaN''"
| "toStr (Str s) = s"
| "toStr v = []"

fun toNum :: "jsval \<Rightarrow> jsval" where
  "toNum Null = Num 0"
| "toNum (Bool b) = Num (if b then 1 else 0)"
| "toNum (Num n) = Num n"
| "toNum v = NaN"

fun isStr :: "jsval \<Rightarrow> bool" where
  "isStr (Str s) = True"
| "isStr v = False"

text \<open>\<^verbatim>\<open>a + b\<close>: concatenation when a side is a string, addition of numbers otherwise.\<close>

definition jsAdd :: "runtime \<Rightarrow> jsval \<Rightarrow> jsval \<Rightarrow> jsval" where
  "jsAdd rt a b =
     (let pa = toPrimitive rt a; pb = toPrimitive rt b
      in if isStr pa \<or> isStr pb then Str (toStr pa @ toStr pb)
         else (case (toNum pa, toNum pb) of (Num x, Num y) \<Rightarrow> Num (x + y) | _ \<Rightarrow> NaN))"

definition propertyKey :: "runtime \<Rightarrow> jsval \<Rightarrow> string" where
  "propertyKey rt v = toStr (toPrimitive rt v)"

text \<open>\<^verbatim>\<open>projectsByStatus[project.status]++\<close>: a key that is not there yet gets \<^verbatim>\<open>NaN\<close>.\<close>

definition bumpStatus :: "runtime \<Rightarrow> jsval \<Rightarrow> fields \<Rightarrow> fields" where
  "bumpStatus rt status counts =
     setProp (propertyKey rt status)
       (case map_of counts (propertyKey rt status) of Some (Num n) \<Rightarrow> Num (n + 1) | _ \<Rightarrow> NaN)
       counts"

record ProjectStats =
  totalProjects :: int
  projectsByStatus :: fields
  totalRecordings :: int
  totalAnalyses :: int
  totalRecordingDuration :: jsval

text \<open>The inner loop of \<^verbatim>\<open>getProjectStats\<close>, over the recordings of one project.\<close>

fun statsRecordings :: "runtime \<Rightarrow> world \<Rightarrow> jsval list \<Rightarrow> ProjectStats \<Rightarrow> error + ProjectStats" where
  "statsRecordings rt w [] acc = Inr acc"
| "statsRecordings rt w (r # rs) acc =
     (case getAnalysesByRecording rt (getProp ''id'' r) w of
        Inl e \<Rightarrow> Inl e
      | Inr as \<Rightarrow>
          statsRecordings rt w rs
            (acc\<lparr>totalRecordingDuration :=
                    jsAdd rt (totalRecordingDuration acc) (getProp ''duration'' r),
                  totalAnalyses := totalAnalyses acc + int (length as)\<rparr>))"

text \<open>The outer loop of \<^verbatim>\<open>getProjectStats\<close>, over the projects.\<close>

fun statsProjects :: "runtime \<Rightarrow> world \<Rightarrow> jsval list \<Rightarrow> ProjectStats \<Rightarrow> error + ProjectStats" where
  "statsProjects rt w [] acc = Inr acc"
| "statsProjects rt w (p # ps) acc =
     (case getRecordingsByProject rt (getProp ''id'' p) w of
        Inl e \<Rightarrow> Inl e
      | Inr rs \<Rightarrow>
          (case statsRecordings rt w rs
                  (acc\<lparr>projectsByStatus :=
                          bumpStatus rt (getProp ''status'' p) (projectsByStatus acc),
                        totalRecordings := totalRecordings acc + int (length rs)\<rparr>) of
             Inl e \<Rightarrow> Inl e
           | Inr acc1 \<Rightarrow> statsProjects rt w ps acc1))"

definition getProjectStats :: "runtime \<Rightarrow> world \<Rightarrow> error + ProjectStats" where
  "getProjectStats rt w =
     (case statsProjects rt w (getAllProjects rt w)
             \<lparr>totalProjects = 0,
              projectsByStatus =
                [(''draft'', Num 0), (''in_progress'', Num 0),
                 (''completed'', Num 0), (''archived'', Num 0)],
              totalRecordings = 0, totalAnalyses = 0, totalRecordingDuration = Num 0\<rparr> of
        Inl e \<Rightarrow> Inl e
      | Inr acc \<Rightarrow> Inr (acc\<lparr>totalProjects := int (length (getAllProjects rt w))\<rparr>))"

section \<open>Export\<close>

text \<open>\<^verbatim>\<open>const { audioBlob, ...recordingWithoutBlob } = recording\<close>.\<close>

definition withoutBlob :: "jsval \<Rightarrow> jsval" where
  "withoutBlob recording = Obj (filter (\<lambda>kv. fst kv \<noteq> ''audioBlob'') (ownFields recording))"

text \<open>The inner loop of \<^verbatim>\<open>exportAllData\<close>: the recordings and analyses collected so far.\<close>

fun exportRecordings ::
  "runtime \<Rightarrow> world \<Rightarrow> jsval list \<Rightarrow> jsval list \<times> jsval list \<Rightarrow> error + jsval list \<times> jsval list" where
  "exportRecordings rt w [] acc = Inr acc"
| "exportRecordings rt w (r # rs) acc =
     (case getAnalysesByRecording rt (getProp ''id'' r) w of
        Inl e \<Rightarrow> Inl e
      | Inr as \<Rightarrow> exportRecordings rt w rs (fst acc @ [withoutBlob r], snd acc @ as))"

fun exportProjects ::
  "runtime \<Rightarrow> world \<Rightarrow> jsval list \<Rightarrow> jsval list \<times> jsval list \<Rightarrow> error + jsval list \<times> jsval list" where
  "exportProjects rt w [] acc = Inr acc"
| "exportProjects rt w (p # ps) acc =
     (case getRecordingsByProject rt (getProp ''id'' p) w of
        Inl e \<Rightarrow> Inl e
      | Inr rs \<Rightarrow>
          (case exportRecordings rt w rs acc of
             Inl e \<Rightarrow> Inl e
           | Inr acc1 \<Rightarrow> exportProjects rt w ps acc1))"

text \<open>The result is the triple of \<^verbatim>\<open>projects\<close>, \<^verbatim>\<open>recordings\<close> and \<^verbatim>\<open>analyses\<close>.\<close>

definition exportAllData :: "runtime \<Rightarrow> world \<Rightarrow> error + jsval list \<times> jsval list \<times> jsval list" where
  "exportAllData rt w =
     (case exportProjects rt w (getAllProjects rt w) ([], []) of
        Inl e \<Rightarrow> Inl e
      | Inr acc \<Rightarrow> Inr (getAllProjects rt w, fst acc, snd acc))"

section \<open>A reference runtime\<close>

text \<open>
  An instance of the runtime for the worked examples: \<^verbatim>\<open>toISOString\<close> as ECMAScript
  defines it, a parser for exactly the strings \<^verbatim>\<open>toISOString\<close> produces for the years
  0 to 9999 (engines accept more formats), a clock that advances by one millisecond at
  each reading.
\<close>

definition pad :: "nat \<Rightarrow> int \<Rightarrow> string" where
  "pad width n = replicate (width - length (showDigits n)) (CHR ''0'') @ showDigits n"

definition civilFromDays :: "int \<Rightarrow> int \<times> int \<times> int" where
  "civilFromDays days =
     (let z = days + 719468;
          era = z div 146097;
          doe = z - era * 146097;
          yoe = (doe - doe div 1460 + doe div 36524 - doe div 146096) div 365;
          doy = doe - (365 * yoe + yoe div 4 - yoe div 100);
          mp = (5 * doy + 2) div 153;
          d = doy - (153 * mp + 2) div 5 + 1;
          m = (if mp < 10 then mp + 3 else mp - 9);
          y = yoe + era * 400 + (if m \<le> 2 then 1 else 0)
      in (y, m, d))"

definition isoString :: "int \<Rightarrow> string" where
  "isoString t =
     (case civilFromDays (t div 86400000) of (y, m, d) \<Rightarrow>
      let ms = t mod 86400000
      in (if 0 \<le> y \<and> y \<le> 9999 then pad 4 y
          else (if y < 0 then ''-'' else ''+'') @ pad 6 \<bar>y\<bar>)
         @ ''-'' @ pad 2 m @ ''-'' @ pad 2 d
         @ ''T'' @ pad 2 (ms div 3600000) @ '':'' @ pad 2 (ms div 60000 mod 60)
         @ '':'' @ pad 2 (ms div 1000 mod 60) @ ''.'' @ pad 3 (ms mod 1000) @ ''Z'')"

definition digitsValue :: "string \<Rightarrow> int" where
  "digitsValue s = foldl (\<lambda>acc c. 10 * acc + (int (of_char c) - 48)) 0 s"

definition daysFromCivil :: "int \<Rightarrow> int \<Rightarrow> int \<Rightarrow> int" where
  "daysFromCivil y m d =
     (let y1 = (if m \<le> 2 then y - 1 else y);
          era = y1 div 400;
          yoe = y1 - era * 400;
          doy = (153 * ((m + 9) mod 12) + 2) div 5 + d - 1;
          doe = yoe * 365 + yoe div 4 - yoe div 100 + doy
      in era * 146097 + doe - 719468)"

definition canonicalPattern :: "atom list" where
  "canonicalPattern = isoPattern @ [Lit (CHR ''.''), Digit, Digit, Digit, Lit (CHR ''Z'')]"

definition isoParse :: "string \<Rightarrow> jsdate" where
  "isoParse s =
     (if length s = 24 \<and> matchPrefix canonicalPattern s then
        (let y = digitsValue (take 4 s); m = digitsValue (take 2 (drop 5 s));
             d = digitsValue (take 2 (drop 8 s)); h = digitsValue (take 2 (drop 11 s));
             mi = digitsValue (take 2 (drop 14 s)); sec = digitsValue (take 2 (drop 17 s));
             ms = digitsValue (take 3 (drop 20 s))
         in if 1 \<le> m \<and> m \<le> 12 \<and> 1 \<le> d \<and> civilFromDays (daysFromCivil y m d) = (y, m, d)
               \<and> h < 24 \<and> mi < 60 \<and> sec < 60
            then ValidDate (daysFromCivil y m d * 86400000 + h * 3600000 + mi * 60000
                            + sec * 1000 + ms)
            else InvalidDate)
      else InvalidDate)"

definition referenceRuntime :: runtime where
  "referenceRuntime =
     \<lparr>toISOString = isoString, dateParse = isoParse,
      toStringOf = (\<lambda>v. ''[object Object]''),
      clock = (\<lambda>n. 1700000000000 + int n),
      random = (\<lambda>n. ''k3f9x'' @ showDigits (int n))\<rparr>"

definition emptyWorld :: world where
  "emptyWorld = \<lparr>projects = [], recordings = [], analyses = [], clockReads = 0, randomDraws = 0\<rparr>"

section \<open>Invariants of the stores\<close>

text \<open>
  What IndexedDB and \<^verbatim>\<open>generateId\<close> guarantee of a store: keys are unique, the record
  under key \<open>k\<close> is an object whose \<^verbatim>\<open>id\<close> is \<open>k\<close>, and no key has the shape of a
  timestamp.
\<close>

definition recordOk :: "string \<times> jsval \<Rightarrow> bool" where
  "recordOk kv =
     (\<not> isoLike (fst kv) \<and>
      (case snd kv of
         Obj fs \<Rightarrow> distinct (map fst fs) \<and> map_of fs ''id'' = Some (Str (fst kv))
       | _ \<Rightarrow> False))"

definition storeOk :: "store \<Rightarrow> bool" where
  "storeOk st = (distinct (map fst st) \<and> list_all recordOk st)"

text \<open>
  What the operations of this module keep of a stored Project and a stored Recording:
  \<^verbatim>\<open>recordingIds\<close> is an array of strings and \<^verbatim>\<open>updatedAt\<close> a string (the JSON form
  of a Date); \<^verbatim>\<open>projectId\<close> is a string that does not have the shape of a timestamp.
\<close>

definition projectOk :: "jsval \<Rightarrow> bool" where
  "projectOk v =
     (isStr (getProp ''updatedAt'' v) \<and>
      (case getProp ''recordingIds'' v of Arr xs \<Rightarrow> list_all isStr xs | _ \<Rightarrow> False))"

definition recordingOk :: "jsval \<Rightarrow> bool" where
  "recordingOk v = (case getProp ''projectId'' v of Str p \<Rightarrow> \<not> isoLike p | _ \<Rightarrow> False)"

definition wellFormed :: "world \<Rightarrow> bool" where
  "wellFormed w =
     (storeOk (projects w) \<and> storeOk (recordings w) \<and> storeOk (analyses w) \<and>
      list_all (\<lambda>kv. projectOk (snd kv)) (projects w) \<and>
      list_all (\<lambda>kv. recordingOk (snd kv)) (recordings w))"

text \<open>
  The two object cases of the codec, named for the lemmas: the properties that
  \<^verbatim>\<open>JSON.stringify\<close> keeps, and the property-wise decoding of \<^verbatim>\<open>deserializeFromStorage\<close>.
\<close>

definition jsonFields :: "runtime \<Rightarrow> fields \<Rightarrow> fields" where
  "jsonFields rt fs =
     concat (map (\<lambda>kv. case jsonValue rt (snd kv) of
                          None \<Rightarrow> [] | Some j \<Rightarrow> [(fst kv, j)]) fs)"

definition decodeProp :: "runtime \<Rightarrow> jsval \<Rightarrow> jsval" where
  "decodeProp rt v =
     (case v of
        Str s \<Rightarrow> if isoLike s then Date (dateParse rt s) else Str s
      | Arr xs \<Rightarrow> deserializeFromStorage rt (Arr xs)
      | Obj gs \<Rightarrow> deserializeFromStorage rt (Obj gs)
      | Date d \<Rightarrow> deserializeFromStorage rt (Date d)
      | Blob b m \<Rightarrow> deserializeFromStorage rt (Blob b m)
      | _ \<Rightarrow> v)"

definition decodeFields :: "runtime \<Rightarrow> fields \<Rightarrow> fields" where
  "decodeFields rt fs = map (\<lambda>kv. (fst kv, decodeProp rt (snd kv))) fs"

text \<open>
  The id that the next \<^verbatim>\<open>create\<close> operation generates: each of them reads the clock
  for \<^verbatim>\<open>now\<close> and then calls \<^verbatim>\<open>generateId\<close>.
\<close>

definition nextId :: "runtime \<Rightarrow> world \<Rightarrow> string" where
  "nextId rt w = fst (generateId rt (snd (newDate rt w)))"

text \<open>A project lists a recording id; some stored project does.\<close>

definition listsRecording :: "string \<Rightarrow> jsval \<Rightarrow> bool" where
  "listsRecording rid project =
     (case getProp ''recordingIds'' project of Arr xs \<Rightarrow> Str rid \<in> set xs | _ \<Rightarrow> False)"

definition referenced :: "string \<Rightarrow> world \<Rightarrow> bool" where
  "referenced rid w = list_ex (\<lambda>kv. listsRecording rid (snd kv)) (projects w)"

text \<open>
  The two quantities \<^verbatim>\<open>getProjectStats\<close> is compared with: the number of recordings
  that \<^verbatim>\<open>getRecordingsByProject\<close> returns for a project id, and the number of listed
  projects whose \<^verbatim>\<open>status\<close>, read as a property key, is a given word.
\<close>

definition recordingCount :: "runtime \<Rightarrow> world \<Rightarrow> string \<Rightarrow> int" where
  "recordingCount rt w k =
     (case getRecordingsByProject rt (Str k) w of Inl e \<Rightarrow> 0 | Inr rs \<Rightarrow> int (length rs))"

definition statusCount :: "runtime \<Rightarrow> world \<Rightarrow> string \<Rightarrow> int" where
  "statusCount rt w s =
     int (length (filter (\<lambda>p. propertyKey rt (getProp ''status'' p) = s) (getAllProjects rt w)))"

text \<open>
  What \<^verbatim>\<open>exportAllData\<close> walks: the recordings whose \<^verbatim>\<open>projectId\<close> is the id of a stored
  project, and the analyses whose \<^verbatim>\<open>recordingId\<close> is the id of such a recording.
\<close>

definition reachableRecording :: "world \<Rightarrow> string \<times> jsval \<Rightarrow> bool" where
  "reachableRecording w r =
     list_ex (\<lambda>p. getProp ''projectId'' (snd r) = Str (fst p)) (projects w)"

definition reachableAnalysis :: "world \<Rightarrow> string \<times> jsval \<Rightarrow> bool" where
  "reachableAnalysis w a =
     list_ex (\<lambda>r. reachableRecording w r \<and> getProp ''recordingId'' (snd a) = Str (fst r))
       (recordings w)"

text \<open>
  Every stored project has an entry in the index on \<^verbatim>\<open>updatedAt\<close>: the field is a
  string, as \<^verbatim>\<open>createProject\<close> and \<^verbatim>\<open>updateProject\<close> write it (the JSON form of
  \<^verbatim>\<open>new Date()\<close>).
\<close>

definition indexedByUpdatedAt :: "store \<Rightarrow> bool" where
  "indexedByUpdatedAt st = list_all (\<lambda>kv. isStr (getProp ''updatedAt'' (snd kv))) st"

text \<open>The codec applied to one entity: \<^verbatim>\<open>deserializeFromStorage(serializeForStorage(x))\<close>.\<close>

definition roundTrip :: "runtime \<Rightarrow> jsval \<Rightarrow> error + jsval" where
  "roundTrip rt x =
     (case serializeForStorage rt x of
        Inl e \<Rightarrow> Inl e
      | Inr stored \<Rightarrow> Inr (deserializeFromStorage rt stored))"

text \<open>A Recording as \<^verbatim>\<open>createRecording\<close> builds it, with four bytes of audio.\<close>

definition sampleRecording :: jsval where
  "sampleRecording = Obj
     [(''id'', Str ''1700000000001_k3f9x0''),
      (''projectId'', Str ''1699999999000_a1b2c3d4e''),
      (''name'', Str ''call-1''),
      (''createdAt'', Date (ValidDate 1700000000000)),
      (''duration'', Num 120),
      (''audioBlob'', Blob [82, 73, 70, 70] ''audio/webm''),
      (''mimeType'', Str ''audio/webm''),
      (''fileSize'', Num 4),
      (''source'', Str ''uploaded''),
      (''transcript'', Undefined),
      (''transcribedAt'', Undefined),
      (''analysisIds'', Arr [])]"

text \<open>
  A small corpus: the project ``Acme Co'' with one recording and one analysis of it,
  and a second analysis of the same project whose \<^verbatim>\<open>recordingId\<close> names no stored
  recording. It is the state reached from the empty stores by \<^verbatim>\<open>createProject\<close>,
  \<^verbatim>\<open>createRecording\<close> and two calls of \<^verbatim>\<open>createAnalysis\<close> under the reference runtime.
\<close>

definition acmeId :: string where
  "acmeId = ''1700000000001_k3f9x0''"

definition callId :: string where
  "callId = ''1700000000003_k3f9x1''"

definition sampleWorld :: world where
  "sampleWorld =
     \<lparr>projects =
        [(''1700000000001_k3f9x0'',
          Obj [(''id'', Str ''1700000000001_k3f9x0''),
               (''name'', Str ''Acme Co''), (''status'', Str ''draft''),
               (''createdAt'', Str ''2023-11-14T22:13:20.000Z''),
               (''updatedAt'', Str ''2023-11-14T22:13:20.004Z''),
               (''recordingIds'', Arr [Str ''1700000000003_k3f9x1''])])],
      recordings =
        [(''1700000000003_k3f9x1'',
          Obj [(''id'', Str ''1700000000003_k3f9x1''),
               (''projectId'', Str ''1700000000001_k3f9x0''),
               (''name'', Str ''call-1''),
               (''createdAt'', Str ''2023-11-14T22:13:20.002Z''),
               (''duration'', Num 120), (''audioBlob'', Obj []),
               (''mimeType'', Str ''audio/webm''), (''fileSize'', Num 4),
               (''source'', Str ''uploaded''),
               (''analysisIds'', Arr [Str ''1700000000006_k3f9x2''])])],
      analyses =
        [(''1700000000006_k3f9x2'',
          Obj [(''id'', Str ''1700000000006_k3f9x2''),
               (''recordingId'', Str ''1700000000003_k3f9x1''),
               (''projectId'', Str ''1700000000001_k3f9x0''),
               (''createdAt'', Str ''2023-11-14T22:13:20.005Z''),
               (''checklistSnapshot'', Obj [(''name'', Str ''basic'')]),
               (''result'', Obj [(''coverageRate'', Num 75)]),
               (''transcriptSnapshot'', Str ''hello'')]),
         (''1700000000008_k3f9x3'',
          Obj [(''id'', Str ''1700000000008_k3f9x3''),
               (''recordingId'', Str ''gone''),
               (''projectId'', Str ''1700000000001_k3f9x0''),
               (''createdAt'', Str ''2023-11-14T22:13:20.007Z''),
               (''checklistSnapshot'', Obj [(''name'', Str ''basic'')]),
               (''result'', Obj [(''coverageRate'', Num 50)]),
               (''transcriptSnapshot'', Str ''bye'')])],
      clockReads = 9, randomDraws = 4\<rparr>"

definition orphanAnalysis :: "string \<times> jsval" where
  "orphanAnalysis = analyses sampleWorld ! 1"

text \<open>The input of a \<^verbatim>\<open>createRecording\<close> whose \<^verbatim>\<open>projectId\<close> names no project.\<close>

definition orphanInput :: fields where
  "orphanInput =
     [(''projectId'', Str ''missing''), (''name'', Str ''call-2''),
      (''audioBlob'', Blob [82, 73, 70, 70] ''audio/webm''), (''mimeType'', Str ''audio/webm''),
      (''duration'', Num 60), (''source'', Str ''realtime'')]"

text \<open>
  The sample corpus after one more \<^verbatim>\<open>createRecording\<close>, whose \<^verbatim>\<open>projectId\<close> names no
  project and has the shape of a timestamp.
\<close>

definition strayRecording :: "string \<times> jsval" where
  "strayRecording =
     (''1700000000010_k3f9x4'',
      Obj [(''id'', Str ''1700000000010_k3f9x4''),
           (''projectId'', Str ''2023-11-14T22:13:20 Acme''),
           (''name'', Str ''call-2''),
           (''createdAt'', Str ''2023-11-14T22:13:20.009Z''),
           (''duration'', Num 60), (''audioBlob'', Obj []),
           (''mimeType'', Str ''audio/webm''), (''fileSize'', Num 4),
           (''source'', Str ''realtime''), (''analysisIds'', Arr [])])"

definition strayWorld :: world where
  "strayWorld =
     sampleWorld\<lparr>recordings := recordings sampleWorld @ [strayRecording],
                 clockReads := 11, randomDraws := 5\<rparr>"

text \<open>
  The properties of the Recording that \<^verbatim>\<open>createRecording\<close> builds, given the
  \<^verbatim>\<open>fileSize\<close> it has read from the blob.
\<close>

definition recordingFields :: "runtime \<Rightarrow> fields \<Rightarrow> world \<Rightarrow> jsval \<Rightarrow> fields" where
  "recordingFields rt input w fileSize =
     [(''id'', Str (nextId rt w)),
      (''projectId'', getProp ''projectId'' (Obj input)),
      (''name'', getProp ''name'' (Obj input)),
      (''createdAt'', Date (ValidDate (clock rt (clockReads w)))),
      (''duration'', getProp ''duration'' (Obj input)),
      (''audioBlob'', getProp ''audioBlob'' (Obj input)),
      (''mimeType'', getProp ''mimeType'' (Obj input)),
      (''fileSize'', fileSize),
      (''source'', getProp ''source'' (Obj input)),
      (''transcript'', getProp ''transcript'' (Obj input)),
      (''transcribedAt'',
         if truthy (getProp ''transcript'' (Obj input))
         then Date (ValidDate (clock rt (clockReads w))) else Undefined),
      (''analysisIds'', Arr [])]"

text \<open>
  The invariant of a project's \<^verbatim>\<open>recordingIds\<close>: the project is stored, and the list
  holds, without duplicates, exactly the ids of the stored recordings whose
  \<^verbatim>\<open>projectId\<close> is the project's id.
\<close>

definition linked :: "world \<Rightarrow> string \<Rightarrow> bool" where
  "linked w p =
     (case map_of (projects w) p of
        None \<Rightarrow> False
      | Some project \<Rightarrow>
          (case getProp ''recordingIds'' project of
             Arr xs \<Rightarrow>
               distinct xs \<and>
               set xs = set (map (\<lambda>kv. Str (fst kv))
                              (filter (\<lambda>kv. getProp ''projectId'' (snd kv) = Str p) (recordings w)))
           | _ \<Rightarrow> False))"

text \<open>The input of a second \<^verbatim>\<open>createRecording\<close> under the project of the sample corpus.\<close>

definition secondInput :: fields where
  "secondInput =
     [(''projectId'', Str ''1700000000001_k3f9x0''), (''name'', Str ''call-2''),
      (''audioBlob'', Blob [82, 73, 70, 70] ''audio/webm''), (''mimeType'', Str ''audio/webm''),
      (''duration'', Num 60), (''source'', Str ''realtime'')]"

section \<open>The codec on a Recording\<close>

text \<open>
  C1. The round trip \<^verbatim>\<open>deserializeFromStorage(serializeForStorage(x))\<close> is claimed to give
  back a value deep-equal to \<open>x\<close>, the bytes of \<^verbatim>\<open>audioBlob\<close> included. On the sample
  Recording the codec resolves, and the \<^verbatim>\<open>audioBlob\<close> of the result is the empty object
  \<^verbatim>\<open>{}\<close>: the four bytes are gone, because the Blob went through \<^verbatim>\<open>JSON.stringify\<close>.
\<close>

theorem roundTrip_loses_audioBlob:
  "getProp ''audioBlob'' sampleRecording = Blob [82, 73, 70, 70] ''audio/webm'' \<and>
   (\<exists>y. roundTrip referenceRuntime sampleRecording = Inr y \<and>
        getProp ''audioBlob'' y = Obj [] \<and> y \<noteq> sampleRecording)"
proof -
  have "roundTrip referenceRuntime sampleRecording =
     Inr (Obj
       [(''id'', Str ''1700000000001_k3f9x0''),
        (''projectId'', Str ''1699999999000_a1b2c3d4e''),
        (''name'', Str ''call-1''),
        (''createdAt'', Date (ValidDate 1700000000000)),
        (''duration'', Num 120),
        (''audioBlob'', Obj []),
        (''mimeType'', Str ''audio/webm''),
        (''fileSize'', Num 4),
        (''source'', Str ''uploaded''),
        (''analysisIds'', Arr [])])"
    by code_simp
  moreover have "getProp ''audioBlob'' sampleRecording = Blob [82, 73, 70, 70] ''audio/webm''"
    by (simp add: sampleRecording_def)
  ultimately show ?thesis
    by (simp add: sampleRecording_def)
qed

section \<open>Cascading deletion\<close>

lemma map_of_decoded:
  "map_of (map (\<lambda>kv. (fst kv, g (snd kv))) fs) k = map_option g (map_of fs k)"
  by (induction fs) auto

lemma getProp_id_decoded:
  assumes "recordOk (k, v)"
  shows "getProp ''id'' (deserializeFromStorage rt v) = Str k"
proof -
  from assms obtain fs where v: "v = Obj fs" and m: "map_of fs ''id'' = Some (Str k)"
    and n: "\<not> isoLike k"
    by (auto simp: recordOk_def split: jsval.splits)
  show ?thesis
    unfolding v by (simp add: map_of_decoded m n)
qed

lemma deleteAnalysis_Str:
  "deleteAnalysis rt (Str k) w = (Inr True, w\<lparr>analyses := filter (\<lambda>kv. fst kv \<noteq> k) (analyses w)\<rparr>)"
  by (simp add: deleteAnalysis_def idbDelete_def)

lemma deleteAnalyses_decoded:
  "list_all recordOk sel \<Longrightarrow>
   deleteAnalyses rt (map (deserializeFromStorage rt) (map snd sel)) w =
     (Inr (), w\<lparr>analyses := filter (\<lambda>kv. fst kv \<notin> fst ` set sel) (analyses w)\<rparr>)"
proof (induction sel arbitrary: w)
  case Nil
  then show ?case by simp
next
  case (Cons a sel)
  obtain k v where a: "a = (k, v)" by (cases a)
  from Cons.prems have ok: "recordOk (k, v)" and rest: "list_all recordOk sel"
    by (simp_all add: a)
  have "(\<lambda>kv. fst kv \<notin> fst ` set sel \<and> fst kv \<noteq> k) = (\<lambda>kv. fst kv \<noteq> k \<and> fst kv \<notin> fst ` set sel)"
    by auto
  then show ?case
    using Cons.IH [OF rest] by (simp add: a getProp_id_decoded [OF ok] deleteAnalysis_Str)
qed

lemma updateProject_frame:
  "updateProject rt key input w = (r, w') \<Longrightarrow>
   recordings w' = recordings w \<and> analyses w' = analyses w"
  by (auto simp: updateProject_def newDate_def Let_def split: sum.splits if_splits)

lemma unlinkRecording_frame:
  "unlinkRecording rt key w = (r, w') \<Longrightarrow>
   recordings w' = recordings w \<and> analyses w' = analyses w"
  by (auto simp: unlinkRecording_def split: sum.splits if_splits prod.splits dest: updateProject_frame)


lemma filter_not_selected:
  assumes "distinct (map fst st)"
  shows "filter (\<lambda>kv. fst kv \<notin> fst ` set (filter Q st)) st = filter (\<lambda>kv. \<not> Q kv) st"
proof (rule filter_cong [OF refl])
  fix kv assume kv: "kv \<in> set st"
  have "fst kv \<in> fst ` set (filter Q st) \<longleftrightarrow> Q kv"
  proof
    assume "fst kv \<in> fst ` set (filter Q st)"
    then obtain kv' where kv': "kv' \<in> set st" "Q kv'" "fst kv' = fst kv" by auto
    from assms kv kv'(1,3) have "kv' = kv"
      by (metis distinct_map inj_on_def)
    with kv'(2) show "Q kv" by simp
  next
    assume "Q kv" with kv show "fst kv \<in> fst ` set (filter Q st)" by force
  qed
  then show "(fst kv \<notin> fst ` set (filter Q st)) = (\<not> Q kv)" by simp
qed

lemma storeOk_filter: "storeOk st \<Longrightarrow> storeOk (filter P st)"
  by (auto simp: storeOk_def list_all_iff distinct_map_filter)

lemma getAnalysesByRecording_Str:
  "getAnalysesByRecording rt (Str k) w =
     Inr (map (deserializeFromStorage rt)
            (map snd (filter (\<lambda>kv. getProp ''recordingId'' (snd kv) = Str k) (analyses w))))"
  by (simp add: getAnalysesByRecording_def indexGetAll_def)

lemma getRecordingsByProject_Str:
  "getRecordingsByProject rt (Str k) w =
     Inr (map (deserializeFromStorage rt)
            (map snd (filter (\<lambda>kv. getProp ''projectId'' (snd kv) = Str k) (recordings w))))"
  by (simp add: getRecordingsByProject_def indexGetAll_def)

lemma getAnalysesByProject_Str:
  "getAnalysesByProject rt (Str k) w =
     Inr (map (deserializeFromStorage rt)
            (map snd (filter (\<lambda>kv. getProp ''projectId'' (snd kv) = Str k) (analyses w))))"
  by (simp add: getAnalysesByProject_def indexGetAll_def)

lemma deleteRecording_effect:
  assumes ok: "storeOk (analyses w)"
    and run: "deleteRecording rt (Str k) w = (Inr b, w')"
  shows "b \<and> analyses w' = filter (\<lambda>kv. getProp ''recordingId'' (snd kv) \<noteq> Str k) (analyses w)
         \<and> recordings w' = filter (\<lambda>kv. fst kv \<noteq> k) (recordings w)"
proof -
  let ?sel = "filter (\<lambda>kv. getProp ''recordingId'' (snd kv) = Str k) (analyses w)"
  let ?w1 = "w\<lparr>analyses := filter (\<lambda>kv. getProp ''recordingId'' (snd kv) \<noteq> Str k) (analyses w)\<rparr>"
  from ok have sel: "list_all recordOk ?sel" and dist: "distinct (map fst (analyses w))"
    by (auto simp: storeOk_def list_all_iff)
  have loop: "deleteAnalyses rt (map (deserializeFromStorage rt) (map snd ?sel)) w = (Inr (), ?w1)"
    unfolding deleteAnalyses_decoded [OF sel]
    using filter_not_selected [OF dist, of "\<lambda>kv. getProp ''recordingId'' (snd kv) = Str k"]
    by simp
  obtain r w2 where un: "unlinkRecording rt (Str k) ?w1 = (r, w2)"
    by (cases "unlinkRecording rt (Str k) ?w1")
  from unlinkRecording_frame [OF un]
  have fr: "recordings w2 = recordings w" "analyses w2 = analyses ?w1" by simp_all
  have "deleteRecording rt (Str k) w =
          (case r of Inl e \<Rightarrow> (Inl e, w2)
           | Inr u \<Rightarrow> (Inr True, w2\<lparr>recordings := filter (\<lambda>kv. fst kv \<noteq> k) (recordings w2)\<rparr>))"
    by (simp del: map_map add: deleteRecording_def getAnalysesByRecording_Str loop un idbDelete_def
          split: sum.split)
  with run fr show ?thesis
    by (auto split: sum.splits)
qed

lemma deleteRecordings_effect:
  assumes "storeOk (analyses w)" "list_all recordOk sel"
    and "deleteRecordings rt (map (deserializeFromStorage rt) (map snd sel)) w = (Inr u, w')"
  shows "analyses w' = filter (\<lambda>kv. getProp ''recordingId'' (snd kv) \<notin> Str ` fst ` set sel) (analyses w)
         \<and> recordings w' = filter (\<lambda>kv. fst kv \<notin> fst ` set sel) (recordings w)"
  using assms
proof (induction sel arbitrary: w)
  case Nil
  then show ?case by simp
next
  case (Cons a sel)
  obtain k v where a: "a = (k, v)" by (cases a)
  from Cons.prems(2) have okkv: "recordOk (k, v)" and rest: "list_all recordOk sel"
    by (simp_all add: a)
  obtain r w1 where step: "deleteRecording rt (Str k) w = (r, w1)"
    by (cases "deleteRecording rt (Str k) w")
  from Cons.prems(3) obtain b where r: "r = Inr b"
    and tail: "deleteRecordings rt (map (deserializeFromStorage rt) (map snd sel)) w1 = (Inr u, w')"
    by (cases r) (simp_all del: map_map add: a getProp_id_decoded [OF okkv] step)
  from deleteRecording_effect [OF Cons.prems(1) step [unfolded r]]
  have e1: "analyses w1 = filter (\<lambda>kv. getProp ''recordingId'' (snd kv) \<noteq> Str k) (analyses w)"
    and e2: "recordings w1 = filter (\<lambda>kv. fst kv \<noteq> k) (recordings w)" by simp_all
  have ok1: "storeOk (analyses w1)" unfolding e1 by (rule storeOk_filter [OF Cons.prems(1)])
  from Cons.IH [OF ok1 rest tail]
  show ?case
    unfolding e1 e2 a by (auto intro: filter_cong)
qed


lemma deleteProject_effect:
  assumes okr: "storeOk (recordings w)" and oka: "storeOk (analyses w)"
    and run: "deleteProject rt (Str pk) w = (Inr b, w')"
  shows "b \<and> map_of (projects w') pk = None
     \<and> analyses w' =
         filter (\<lambda>kv. getProp ''recordingId'' (snd kv) \<notin>
                   Str ` fst ` set (filter (\<lambda>kv. getProp ''projectId'' (snd kv) = Str pk) (recordings w)))
           (analyses w)
     \<and> recordings w' = filter (\<lambda>kv. getProp ''projectId'' (snd kv) \<noteq> Str pk) (recordings w)"
proof -
  let ?sel = "filter (\<lambda>kv. getProp ''projectId'' (snd kv) = Str pk) (recordings w)"
  from okr have sel: "list_all recordOk ?sel" and dist: "distinct (map fst (recordings w))"
    by (auto simp: storeOk_def list_all_iff)
  obtain r w1 where loop:
    "deleteRecordings rt (map (deserializeFromStorage rt) (map snd ?sel)) w = (r, w1)"
    by (cases "deleteRecordings rt (map (deserializeFromStorage rt) (map snd ?sel)) w")
  have eq: "deleteProject rt (Str pk) w =
          (case r of Inl e \<Rightarrow> (Inl e, w1)
           | Inr u \<Rightarrow> (Inr True, w1\<lparr>projects := filter (\<lambda>kv. fst kv \<noteq> pk) (projects w1)\<rparr>))"
    by (simp del: map_map add: deleteProject_def getRecordingsByProject_Str loop idbDelete_def
          split: sum.split)
  from run eq obtain u where r: "r = Inr u"
    and w': "w' = w1\<lparr>projects := filter (\<lambda>kv. fst kv \<noteq> pk) (projects w1)\<rparr>" and b: "b"
    by (cases r) auto
  from deleteRecordings_effect [OF oka sel loop [unfolded r]]
  have e: "analyses w1 = filter (\<lambda>kv. getProp ''recordingId'' (snd kv) \<notin> Str ` fst ` set ?sel) (analyses w)"
       "recordings w1 = filter (\<lambda>kv. fst kv \<notin> fst ` set ?sel) (recordings w)"
    by simp_all
  have none: "map_of (filter (\<lambda>kv. fst kv \<noteq> pk) st) pk = None" for st :: store
    by (induction st) auto
  from e b show ?thesis
    unfolding w'
    using filter_not_selected [OF dist, of "\<lambda>kv. getProp ''projectId'' (snd kv) = Str pk"]
    by (simp add: none)
qed

text \<open>
  C2. Whenever \<^verbatim>\<open>deleteProject(p.id)\<close> resolves, \<^verbatim>\<open>getProject(p.id)\<close> yields \<^verbatim>\<open>null\<close>,
  \<^verbatim>\<open>getRecordingsByProject(p.id)\<close> yields the empty list, and for every recording that
  was stored with that \<^verbatim>\<open>projectId\<close> before the call \<^verbatim>\<open>getAnalysesByRecording\<close> of its
  id yields the empty list. The stores are as IndexedDB and \<^verbatim>\<open>generateId\<close> leave them.
\<close>

theorem deleteProject_cascade:
  assumes "storeOk (recordings w)" and "storeOk (analyses w)"
    and "deleteProject rt (Str pk) w = (Inr b, w')"
  shows "getProject rt (Str pk) w' = Inr Null
     \<and> getRecordingsByProject rt (Str pk) w' = Inr []
     \<and> (\<forall>kv \<in> set (recordings w). getProp ''projectId'' (snd kv) = Str pk \<longrightarrow>
           getAnalysesByRecording rt (Str (fst kv)) w' = Inr [])"
proof -
  note e = deleteProject_effect [OF assms]
  have 1: "getProject rt (Str pk) w' = Inr Null"
    using e by (simp add: getProject_def idbGet_def found_def)
  have 2: "getRecordingsByProject rt (Str pk) w' = Inr []"
    using e by (simp add: getRecordingsByProject_Str)
  have 3: "getAnalysesByRecording rt (Str (fst kv)) w' = Inr []"
    if "kv \<in> set (recordings w)" "getProp ''projectId'' (snd kv) = Str pk" for kv
  proof -
    have "filter (\<lambda>a. getProp ''recordingId'' (snd a) = Str (fst kv)) (analyses w') = []"
      using e that by (auto simp: filter_empty_conv)
    then show ?thesis by (simp add: getAnalysesByRecording_Str)
  qed
  from 1 2 3 show ?thesis by blast
qed

text \<open>
  C10. \<^verbatim>\<open>deleteProject(id)\<close> deletes exactly the analyses whose \<^verbatim>\<open>recordingId\<close> is the id
  of a recording stored with \<^verbatim>\<open>projectId = id\<close> at the call. An analysis of the project
  whose \<^verbatim>\<open>recordingId\<close> is the id of no stored recording stays, and
  \<^verbatim>\<open>getAnalysesByProject(id)\<close> returns it afterwards.
\<close>

theorem deleteProject_leaves_unreachable_analyses:
  assumes "storeOk (recordings w)" and "storeOk (analyses w)"
    and "deleteProject rt (Str pk) w = (Inr b, w')"
    and "(k, a) \<in> set (analyses w)"
    and "getProp ''projectId'' a = Str pk"
    and "getProp ''recordingId'' a \<notin> Str ` fst ` set (recordings w)"
  shows "analyses w' =
           filter (\<lambda>kv. getProp ''recordingId'' (snd kv) \<notin>
                     Str ` fst ` set (filter (\<lambda>kv. getProp ''projectId'' (snd kv) = Str pk) (recordings w)))
             (analyses w)
     \<and> (k, a) \<in> set (analyses w')
     \<and> (\<exists>found. getAnalysesByProject rt (Str pk) w' = Inr found \<and>
                 deserializeFromStorage rt a \<in> set found)"
proof -
  note e = deleteProject_effect [OF assms(1-3)]
  have in': "(k, a) \<in> set (analyses w')"
    using e assms(4,6) by auto
  then have "deserializeFromStorage rt a \<in>
      set (map (deserializeFromStorage rt)
            (map snd (filter (\<lambda>kv. getProp ''projectId'' (snd kv) = Str pk) (analyses w'))))"
    using assms(5) by force
  with e in' show ?thesis
    by (simp only: getAnalysesByProject_Str) blast
qed

theorem deleteProject_cascade_witness:
  "storeOk (recordings sampleWorld) \<and> storeOk (analyses sampleWorld)
   \<and> fst (deleteProject referenceRuntime (Str acmeId) sampleWorld) = Inr True
   \<and> getProject referenceRuntime (Str acmeId)
         (snd (deleteProject referenceRuntime (Str acmeId) sampleWorld)) = Inr Null
   \<and> getRecordingsByProject referenceRuntime (Str acmeId)
         (snd (deleteProject referenceRuntime (Str acmeId) sampleWorld)) = Inr []
   \<and> getAnalysesByRecording referenceRuntime (Str callId)
         (snd (deleteProject referenceRuntime (Str acmeId) sampleWorld)) = Inr []"
proof -
  let ?w' = "snd (deleteProject referenceRuntime (Str acmeId) sampleWorld)"
  have h1: "storeOk (recordings sampleWorld)" by code_simp
  have h2: "storeOk (analyses sampleWorld)" by code_simp
  have h3: "fst (deleteProject referenceRuntime (Str acmeId) sampleWorld) = Inr True"
    by code_simp
  then have run: "deleteProject referenceRuntime (Str acmeId) sampleWorld = (Inr True, ?w')"
    by (simp add: prod_eq_iff)
  have r: "hd (recordings sampleWorld) \<in> set (recordings sampleWorld)"
    "getProp ''projectId'' (snd (hd (recordings sampleWorld))) = Str acmeId"
    "fst (hd (recordings sampleWorld)) = callId"
    by (simp_all add: sampleWorld_def acmeId_def callId_def)
  from deleteProject_cascade [OF h1 h2 run] r h1 h2 h3 show ?thesis
    by metis
qed

theorem deleteProject_leaves_unreachable_analyses_witness:
  "storeOk (recordings sampleWorld) \<and> storeOk (analyses sampleWorld)
   \<and> fst (deleteProject referenceRuntime (Str acmeId) sampleWorld) = Inr True
   \<and> orphanAnalysis \<in> set (analyses sampleWorld)
   \<and> getProp ''projectId'' (snd orphanAnalysis) = Str acmeId
   \<and> getProp ''recordingId'' (snd orphanAnalysis) \<notin> Str ` fst ` set (recordings sampleWorld)
   \<and> orphanAnalysis \<in> set (analyses (snd (deleteProject referenceRuntime (Str acmeId) sampleWorld)))
   \<and> (\<exists>found. getAnalysesByProject referenceRuntime (Str acmeId)
                  (snd (deleteProject referenceRuntime (Str acmeId) sampleWorld)) = Inr found
         \<and> deserializeFromStorage referenceRuntime (snd orphanAnalysis) \<in> set found)"
proof -
  let ?w' = "snd (deleteProject referenceRuntime (Str acmeId) sampleWorld)"
  have h1: "storeOk (recordings sampleWorld)" by code_simp
  have h2: "storeOk (analyses sampleWorld)" by code_simp
  have h3: "fst (deleteProject referenceRuntime (Str acmeId) sampleWorld) = Inr True"
    by code_simp
  then have run: "deleteProject referenceRuntime (Str acmeId) sampleWorld = (Inr True, ?w')"
    by (simp add: prod_eq_iff)
  have h4: "(fst orphanAnalysis, snd orphanAnalysis) \<in> set (analyses sampleWorld)"
    by (simp add: orphanAnalysis_def sampleWorld_def)
  have h5: "getProp ''projectId'' (snd orphanAnalysis) = Str acmeId"
    by (simp add: orphanAnalysis_def sampleWorld_def acmeId_def)
  have h6: "getProp ''recordingId'' (snd orphanAnalysis) \<notin> Str ` fst ` set (recordings sampleWorld)"
    by (simp add: orphanAnalysis_def sampleWorld_def)
  from deleteProject_leaves_unreachable_analyses [OF h1 h2 run h4 h5 h6]
  have "orphanAnalysis \<in> set (analyses ?w')"
    and "\<exists>found. getAnalysesByProject referenceRuntime (Str acmeId) ?w' = Inr found
           \<and> deserializeFromStorage referenceRuntime (snd orphanAnalysis) \<in> set found"
    unfolding prod.collapse by blast+
  with h1 h2 h3 h4 [unfolded prod.collapse] h5 h6 show ?thesis
    by blast
qed

section \<open>Objects through the codec\<close>

lemma jsonValue_Obj: "jsonValue rt (Obj fs) = Some (Obj (jsonFields rt fs))"
  by (simp add: jsonFields_def)

lemma serialize_Obj: "serializeForStorage rt (Obj fs) = Inr (Obj (jsonFields rt fs))"
  by (simp add: serializeForStorage_def jsonFields_def)

lemma deserialize_Obj: "deserializeFromStorage rt (Obj fs) = Obj (decodeFields rt fs)"
  by (auto simp: decodeFields_def decodeProp_def split: jsval.split)

declare deserializeFromStorage.simps(2) [simp del]
declare jsonValue.simps(11) [simp del]
declare jsonValue_Obj [simp]
declare deserialize_Obj [simp]

lemma keys_decodeFields: "map fst (decodeFields rt fs) = map fst fs"
  by (simp add: decodeFields_def)

lemma map_of_decodeFields: "map_of (decodeFields rt fs) k = map_option (decodeProp rt) (map_of fs k)"
  unfolding decodeFields_def by (rule map_of_decoded)

lemma jsonFields_Cons:
  "jsonFields rt ((k, v) # fs) =
     (case jsonValue rt v of None \<Rightarrow> [] | Some j \<Rightarrow> [(k, j)]) @ jsonFields rt fs"
  by (simp add: jsonFields_def split: option.split)

lemma keys_jsonFields: "fst ` set (jsonFields rt fs) \<subseteq> fst ` set fs"
proof (induction fs)
  case Nil
  then show ?case by (simp add: jsonFields_def)
next
  case (Cons a fs)
  then show ?case
    by (cases a) (auto simp: jsonFields_Cons split: option.splits)
qed

lemma distinct_jsonFields: "distinct (map fst fs) \<Longrightarrow> distinct (map fst (jsonFields rt fs))"
proof (induction fs)
  case Nil
  then show ?case by (simp add: jsonFields_def)
next
  case (Cons a fs)
  obtain k v where a: "a = (k, v)" by (cases a)
  from Cons.prems have "k \<notin> fst ` set (jsonFields rt fs)"
    using keys_jsonFields [of rt fs] by (auto simp: a)
  with Cons show ?case
    by (auto simp: a jsonFields_Cons split: option.splits)
qed

lemma map_of_jsonFields:
  "distinct (map fst fs) \<Longrightarrow>
   map_of (jsonFields rt fs) k = (case map_of fs k of None \<Rightarrow> None | Some v \<Rightarrow> jsonValue rt v)"
proof (induction fs)
  case Nil
  then show ?case by (simp add: jsonFields_def)
next
  case (Cons a fs)
  obtain k' v where a: "a = (k', v)" by (cases a)
  from Cons.prems have notin: "k' \<notin> fst ` set (jsonFields rt fs)"
    using keys_jsonFields [of rt fs] by (auto simp: a)
  then have none: "map_of (jsonFields rt fs) k' = None"
    by (simp add: map_of_eq_None_iff)
  from Cons.prems have none': "map_of fs k' = None"
    by (simp add: a map_of_eq_None_iff)
  from Cons.prems have d: "distinct (map fst fs)" by simp
  show ?case
    using Cons.IH [OF d] none none'
    by (auto simp: a jsonFields_Cons split: option.splits)
qed

lemma keys_setProp: "fst ` set (setProp k v fs) = insert k (fst ` set fs)"
  by (induction fs) auto

lemma distinct_setProp: "distinct (map fst fs) \<Longrightarrow> distinct (map fst (setProp k v fs))"
  by (induction fs) (auto simp: keys_setProp)

lemma map_of_setProp: "map_of (setProp k v fs) = (map_of fs)(k \<mapsto> v)"
  by (induction fs) (auto simp: fun_eq_iff)

lemma distinct_assign: "distinct (map fst fs) \<Longrightarrow> distinct (map fst (assign fs gs))"
  by (induction gs arbitrary: fs) (auto simp: distinct_setProp)

lemma map_of_assign_other: "k \<notin> fst ` set gs \<Longrightarrow> map_of (assign fs gs) k = map_of fs k"
  by (induction gs arbitrary: fs) (auto simp: map_of_setProp)

lemma map_of_assign_distinct:
  "distinct (map fst gs) \<Longrightarrow> map_of gs k = Some v \<Longrightarrow> map_of (assign fs gs) k = Some v"
proof (induction gs arbitrary: fs)
  case Nil
  then show ?case by simp
next
  case (Cons a gs)
  show ?case
  proof (cases "fst a = k")
    case True
    with Cons.prems have "k \<notin> fst ` set gs" "snd a = v" by auto
    then show ?thesis
      using True by (simp add: map_of_assign_other map_of_setProp)
  next
    case False
    with Cons.prems have "distinct (map fst gs)" "map_of gs k = Some v" by auto
    from Cons.IH [OF this] show ?thesis by simp
  qed
qed

lemma getProp_Obj: "getProp k (Obj fs) = (case map_of fs k of Some v \<Rightarrow> v | None \<Rightarrow> Undefined)"
  by simp


lemma strs_decode: "list_all isStr xs \<Longrightarrow> map (deserializeFromStorage rt) xs = xs"
proof (induction xs)
  case Nil
  then show ?case by simp
next
  case (Cons x xs)
  then show ?case by (cases x) simp_all
qed

lemma strs_json:
  "list_all isStr xs \<Longrightarrow> map (\<lambda>x. case jsonValue rt x of None \<Rightarrow> Null | Some j \<Rightarrow> j) xs = xs"
proof (induction xs)
  case Nil
  then show ?case by simp
next
  case (Cons x xs)
  then show ?case by (cases x) simp_all
qed

lemma map_of_hasKey: "map_of st k = Some v \<Longrightarrow> hasKey k st"
  by (auto simp: hasKey_def dest: map_of_SomeD intro: rev_image_eqI)

lemma storeOk_lookup:
  assumes "storeOk st" "map_of st k = Some v"
  shows "recordOk (k, v)"
  using assms by (auto simp: storeOk_def list_all_iff dest: map_of_SomeD)

lemma recordOk_fields:
  assumes "recordOk (k, v)"
  obtains fs where "v = Obj fs" "distinct (map fst fs)" "map_of fs ''id'' = Some (Str k)" "\<not> isoLike k"
  using assms by (auto simp: recordOk_def split: jsval.splits)

lemma updateProject_existing:
  assumes st: "storeOk (projects w)"
    and m: "map_of (projects w) p = Some (Obj fs)"
    and idk: "map_of (assign (decodeFields rt fs) input) ''id'' = Some (Str p)"
  shows "updateProject rt (Str p) input w =
     (Inr (Obj (setProp ''updatedAt'' (Date (ValidDate (clock rt (clockReads w))))
                  (assign (decodeFields rt fs) input))),
      w\<lparr>clockReads := Suc (clockReads w),
        projects := map (\<lambda>kv. if fst kv = p
            then (p, Obj (jsonFields rt
                    (setProp ''updatedAt'' (Date (ValidDate (clock rt (clockReads w))))
                       (assign (decodeFields rt fs) input))))
            else kv) (projects w)\<rparr>)"
proof -
  let ?U = "setProp ''updatedAt'' (Date (ValidDate (clock rt (clockReads w))))
              (assign (decodeFields rt fs) input)"
  from storeOk_lookup [OF st m] have dfs: "distinct (map fst fs)"
    by (auto elim: recordOk_fields)
  then have dU: "distinct (map fst ?U)"
    by (simp add: distinct_setProp distinct_assign keys_decodeFields)
  have "map_of ?U ''id'' = Some (Str p)"
    by (simp add: map_of_setProp idk)
  then have idJ: "map_of (jsonFields rt ?U) ''id'' = Some (Str p)"
    by (simp add: map_of_jsonFields [OF dU])
  have get: "getProject rt (Str p) w = Inr (Obj (decodeFields rt fs))"
    by (simp add: getProject_def idbGet_def found_def m)
  show ?thesis
    by (simp add: updateProject_def get newDate_def serialize_Obj idbPut_def idJ
          map_of_hasKey [OF m])
qed


lemma decodeProp_Str: "\<not> isoLike s \<Longrightarrow> decodeProp rt (Str s) = Str s"
  by (simp add: decodeProp_def)

lemma decodeProp_strs: "list_all isStr xs \<Longrightarrow> decodeProp rt (Arr xs) = Arr xs"
  by (simp add: decodeProp_def strs_decode)

lemma list_all_lookup: "list_all P st \<Longrightarrow> map_of st k = Some v \<Longrightarrow> P (k, v)"
  by (auto simp: list_all_iff dest: map_of_SomeD)

lemma storeOk_replace:
  assumes "storeOk st" "recordOk (p, v)"
  shows "storeOk (map (\<lambda>kv. if fst kv = p then (p, v) else kv) st)"
proof -
  have "map fst (map (\<lambda>kv. if fst kv = p then (p, v) else kv) st) = map fst st"
    by (induction st) auto
  with assms show ?thesis
    unfolding storeOk_def by (auto simp del: map_map simp add: list_all_iff)
qed

lemma updateProject_wf:
  assumes wf: "wellFormed w"
    and m: "map_of (projects w) p = Some (Obj fs)"
    and idk: "map_of (assign (decodeFields rt fs) input) ''id'' = Some (Str p)"
    and pok: "projectOk (Obj (jsonFields rt
                (setProp ''updatedAt'' (Date (ValidDate (clock rt (clockReads w))))
                   (assign (decodeFields rt fs) input))))"
  shows "\<exists>u w'. updateProject rt (Str p) input w = (Inr u, w') \<and> wellFormed w'"
proof -
  let ?U = "setProp ''updatedAt'' (Date (ValidDate (clock rt (clockReads w))))
              (assign (decodeFields rt fs) input)"
  from wf have st: "storeOk (projects w)" by (simp add: wellFormed_def)
  from storeOk_lookup [OF st m] have dfs: "distinct (map fst fs)" and niso: "\<not> isoLike p"
    by (auto elim: recordOk_fields)
  then have dU: "distinct (map fst ?U)"
    by (simp add: distinct_setProp distinct_assign keys_decodeFields)
  have "map_of ?U ''id'' = Some (Str p)"
    by (simp add: map_of_setProp idk)
  then have idJ: "map_of (jsonFields rt ?U) ''id'' = Some (Str p)"
    by (simp add: map_of_jsonFields [OF dU])
  have rok: "recordOk (p, Obj (jsonFields rt ?U))"
    by (simp add: recordOk_def niso idJ distinct_jsonFields [OF dU])
  have "wellFormed (w\<lparr>clockReads := Suc (clockReads w),
        projects := map (\<lambda>kv. if fst kv = p then (p, Obj (jsonFields rt ?U)) else kv) (projects w)\<rparr>)"
    using wf pok storeOk_replace [OF st rok]
    by (auto simp: wellFormed_def list_all_iff)
  with updateProject_existing [OF st m idk] show ?thesis by blast
qed

lemma unlinkRecording_ok:
  assumes wf: "wellFormed w"
  shows "\<exists>w'. unlinkRecording rt (Str k) w = (Inr (), w') \<and> wellFormed w'"
proof (cases "map_of (recordings w) k")
  case None
  then have "unlinkRecording rt (Str k) w = (Inr (), w)"
    by (simp add: unlinkRecording_def getRecording_def idbGet_def found_def)
  with wf show ?thesis by blast
next
  case (Some v)
  from wf have sr: "storeOk (recordings w)" and sp: "storeOk (projects w)"
    and ar: "list_all (\<lambda>kv. recordingOk (snd kv)) (recordings w)"
    and ap: "list_all (\<lambda>kv. projectOk (snd kv)) (projects w)"
    by (simp_all add: wellFormed_def)
  from storeOk_lookup [OF sr Some] obtain rfs where v: "v = Obj rfs"
    by (auto elim: recordOk_fields)
  from list_all_lookup [OF ar Some] obtain p where
    pid: "map_of rfs ''projectId'' = Some (Str p)" and niso: "\<not> isoLike p"
    by (auto simp: recordingOk_def v split: option.splits jsval.splits)
  have rec: "getRecording rt (Str k) w = Inr (Obj (decodeFields rt rfs))"
    by (simp add: getRecording_def idbGet_def found_def Some v)
  have dpid: "map_of (decodeFields rt rfs) ''projectId'' = Some (Str p)"
    by (simp add: map_of_decodeFields pid decodeProp_Str [OF niso])
  show ?thesis
  proof (cases "map_of (projects w) p")
    case None
    then have "unlinkRecording rt (Str k) w = (Inr (), w)"
      by (simp add: unlinkRecording_def rec dpid getProject_def idbGet_def found_def)
    with wf show ?thesis by blast
  next
    case (Some pv)
    from storeOk_lookup [OF sp Some] obtain fs where pv: "pv = Obj fs"
      and idf: "map_of fs ''id'' = Some (Str p)" and dfs: "distinct (map fst fs)"
      by (auto elim: recordOk_fields)
    from list_all_lookup [OF ap Some] obtain xs where
      ids: "map_of fs ''recordingIds'' = Some (Arr xs)" and strs: "list_all isStr xs"
      by (auto simp: projectOk_def pv split: option.splits jsval.splits)
    let ?ys = "filter (\<lambda>rid. \<not> strictEq rid (Str k)) xs"
    let ?input = "[(''recordingIds'', Arr ?ys)]"
    let ?U = "setProp ''updatedAt'' (Date (ValidDate (clock rt (clockReads w))))
                (assign (decodeFields rt fs) ?input)"
    have proj: "getProject rt (Str p) w = Inr (Obj (decodeFields rt fs))"
      by (simp add: getProject_def idbGet_def found_def Some pv)
    have dids: "map_of (decodeFields rt fs) ''recordingIds'' = Some (Arr xs)"
      by (simp add: map_of_decodeFields ids decodeProp_strs [OF strs])
    have idk: "map_of (assign (decodeFields rt fs) ?input) ''id'' = Some (Str p)"
      by (simp add: map_of_setProp map_of_decodeFields idf decodeProp_Str [OF niso])
    have dU: "distinct (map fst ?U)"
      using dfs by (simp add: distinct_setProp keys_decodeFields)
    have ys: "list_all isStr ?ys" using strs by (simp add: list_all_iff)
    have pok: "projectOk (Obj (jsonFields rt ?U))"
      by (simp add: projectOk_def map_of_jsonFields distinct_setProp keys_decodeFields dfs
            map_of_setProp strs_json [OF ys] ys)
    from updateProject_wf [OF wf Some [unfolded pv] idk pok]
    obtain u w' where up: "updateProject rt (Str p) ?input w = (Inr u, w')" and wf': "wellFormed w'"
      by blast
    have "unlinkRecording rt (Str k) w = (Inr (), w')"
      by (simp add: unlinkRecording_def rec dpid proj dids withoutId_def up)
    with wf' show ?thesis by blast
  qed
qed


section \<open>Deletion always resolves\<close>

lemma deleteRecording_unfold:
  assumes ok: "storeOk (analyses w)"
  shows "deleteRecording rt (Str k) w =
     (case unlinkRecording rt (Str k)
             (w\<lparr>analyses := filter (\<lambda>kv. getProp ''recordingId'' (snd kv) \<noteq> Str k) (analyses w)\<rparr>) of
        (Inl e, w2) \<Rightarrow> (Inl e, w2)
      | (Inr u, w2) \<Rightarrow> (Inr True, w2\<lparr>recordings := filter (\<lambda>kv. fst kv \<noteq> k) (recordings w2)\<rparr>))"
proof -
  let ?sel = "filter (\<lambda>kv. getProp ''recordingId'' (snd kv) = Str k) (analyses w)"
  let ?w1 = "w\<lparr>analyses := filter (\<lambda>kv. getProp ''recordingId'' (snd kv) \<noteq> Str k) (analyses w)\<rparr>"
  from ok have sel: "list_all recordOk ?sel" and dist: "distinct (map fst (analyses w))"
    by (auto simp: storeOk_def list_all_iff)
  have loop: "deleteAnalyses rt (map (deserializeFromStorage rt) (map snd ?sel)) w = (Inr (), ?w1)"
    unfolding deleteAnalyses_decoded [OF sel]
    using filter_not_selected [OF dist, of "\<lambda>kv. getProp ''recordingId'' (snd kv) = Str k"]
    by simp
  show ?thesis
    by (simp del: map_map add: deleteRecording_def getAnalysesByRecording_Str loop idbDelete_def
          split: sum.split prod.split)
qed

lemma wellFormed_filter_analyses:
  "wellFormed w \<Longrightarrow> wellFormed (w\<lparr>analyses := filter P (analyses w)\<rparr>)"
  by (simp add: wellFormed_def storeOk_filter)

lemma wellFormed_filter_recordings:
  "wellFormed w \<Longrightarrow> wellFormed (w\<lparr>recordings := filter P (recordings w)\<rparr>)"
  by (auto simp: wellFormed_def storeOk_filter list_all_iff)

lemma wellFormed_filter_projects:
  "wellFormed w \<Longrightarrow> wellFormed (w\<lparr>projects := filter P (projects w)\<rparr>)"
  by (auto simp: wellFormed_def storeOk_filter list_all_iff)

lemma deleteRecording_ok:
  assumes wf: "wellFormed w"
  shows "\<exists>w'. deleteRecording rt (Str k) w = (Inr True, w') \<and> wellFormed w'"
proof -
  let ?w1 = "w\<lparr>analyses := filter (\<lambda>kv. getProp ''recordingId'' (snd kv) \<noteq> Str k) (analyses w)\<rparr>"
  from wf have ok: "storeOk (analyses w)" by (simp add: wellFormed_def)
  from unlinkRecording_ok [OF wellFormed_filter_analyses [OF wf]]
  obtain w2 where un: "unlinkRecording rt (Str k) ?w1 = (Inr (), w2)" and wf2: "wellFormed w2"
    by blast
  have "deleteRecording rt (Str k) w =
          (Inr True, w2\<lparr>recordings := filter (\<lambda>kv. fst kv \<noteq> k) (recordings w2)\<rparr>)"
    by (simp add: deleteRecording_unfold [OF ok] un)
  with wellFormed_filter_recordings [OF wf2] show ?thesis by blast
qed

lemma deleteRecordings_ok:
  assumes "wellFormed w" "list_all recordOk sel"
  shows "\<exists>w'. deleteRecordings rt (map (deserializeFromStorage rt) (map snd sel)) w = (Inr (), w')
              \<and> wellFormed w'"
  using assms
proof (induction sel arbitrary: w)
  case Nil
  then show ?case by simp
next
  case (Cons a sel)
  obtain k v where a: "a = (k, v)" by (cases a)
  from Cons.prems(2) have okkv: "recordOk (k, v)" and rest: "list_all recordOk sel"
    by (simp_all add: a)
  from deleteRecording_ok [OF Cons.prems(1)]
  obtain w1 where step: "deleteRecording rt (Str k) w = (Inr True, w1)" and wf1: "wellFormed w1"
    by blast
  from Cons.IH [OF wf1 rest] show ?case
    by (simp del: map_map add: a getProp_id_decoded [OF okkv] step)
qed

lemma deleteProject_ok:
  assumes wf: "wellFormed w"
  shows "\<exists>w'. deleteProject rt (Str k) w = (Inr True, w') \<and> wellFormed w'"
proof -
  let ?sel = "filter (\<lambda>kv. getProp ''projectId'' (snd kv) = Str k) (recordings w)"
  from wf have "list_all recordOk ?sel"
    by (auto simp: wellFormed_def storeOk_def list_all_iff)
  from deleteRecordings_ok [OF wf this]
  obtain w1 where loop:
    "deleteRecordings rt (map (deserializeFromStorage rt) (map snd ?sel)) w = (Inr (), w1)"
    and wf1: "wellFormed w1" by blast
  have "deleteProject rt (Str k) w =
          (Inr True, w1\<lparr>projects := filter (\<lambda>kv. fst kv \<noteq> k) (projects w1)\<rparr>)"
    by (simp del: map_map add: deleteProject_def getRecordingsByProject_Str loop idbDelete_def)
  with wellFormed_filter_projects [OF wf1] show ?thesis by blast
qed

text \<open>
  C5, as the code has it. On well-formed stores and for every string id, each of
  \<^verbatim>\<open>deleteProject\<close>, \<^verbatim>\<open>deleteRecording\<close> and \<^verbatim>\<open>deleteAnalysis\<close> resolves, and with
  \<^verbatim>\<open>true\<close>, whether or not an entity with that id was stored.
\<close>

theorem delete_resolves_true:
  assumes "wellFormed w"
  shows "fst (deleteProject rt (Str k) w) = Inr True
     \<and> fst (deleteRecording rt (Str k) w) = Inr True
     \<and> fst (deleteAnalysis rt (Str k) w) = Inr True"
  using deleteProject_ok [OF assms, of rt k] deleteRecording_ok [OF assms, of rt k]
  by (auto simp: deleteAnalysis_Str)

theorem delete_resolves_true_witness:
  "wellFormed sampleWorld
   \<and> fst (deleteProject referenceRuntime (Str callId) sampleWorld) = Inr True
   \<and> fst (deleteRecording referenceRuntime (Str callId) sampleWorld) = Inr True
   \<and> fst (deleteAnalysis referenceRuntime (Str callId) sampleWorld) = Inr True"
proof -
  have "wellFormed sampleWorld" by code_simp
  with delete_resolves_true [of sampleWorld referenceRuntime callId] show ?thesis
    by simp
qed

text \<open>
  C5 as stated fails: no project, recording or analysis of the sample corpus has the id
  \<^verbatim>\<open>nope\<close>, and the three delete operations resolve with \<^verbatim>\<open>true\<close> on it.
\<close>

theorem delete_absent_counterexample:
  "\<not> hasKey ''nope'' (projects sampleWorld) \<and> \<not> hasKey ''nope'' (recordings sampleWorld) \<and>
   \<not> hasKey ''nope'' (analyses sampleWorld) \<and>
   fst (deleteProject referenceRuntime (Str ''nope'') sampleWorld) = Inr True \<and>
   fst (deleteRecording referenceRuntime (Str ''nope'') sampleWorld) = Inr True \<and>
   fst (deleteAnalysis referenceRuntime (Str ''nope'') sampleWorld) = Inr True"
  by code_simp

section \<open>Generated identifiers\<close>

lemma isDigit_digitChar: "isDigit (digitChar n)"
proof -
  have "nat (n mod 10) < length ''0123456789''" by simp
  then have "''0123456789'' ! nat (n mod 10) \<in> set ''0123456789''"
    by (rule nth_mem)
  then show ?thesis
    unfolding digitChar_def isDigit_def .
qed

lemma showDigits_digits: "list_all isDigit (showDigits n)"
proof (induction n rule: showDigits.induct)
  case (1 n)
  show ?case
  proof (cases "n < 10")
    case True
    then show ?thesis by (subst showDigits.simps) (simp add: isDigit_digitChar)
  next
    case False
    with 1 show ?thesis by (subst showDigits.simps) (simp add: isDigit_digitChar)
  qed
qed

lemma digits_then_other:
  "list_all isDigit ds \<Longrightarrow> \<not> isDigit x \<Longrightarrow> \<not> isDigit c \<Longrightarrow> x \<noteq> c \<Longrightarrow>
   \<not> matchPrefix (replicate n Digit @ Lit c # ps) (ds @ x # r)"
proof (induction n arbitrary: ds)
  case 0
  then show ?case by (cases ds) auto
next
  case (Suc n)
  then show ?case by (cases ds) auto
qed

lemma isoPattern_shape:
  "isoPattern = replicate 4 Digit @ Lit (CHR ''-'') #
     [Digit, Digit, Lit (CHR ''-''), Digit, Digit, Lit (CHR ''T''), Digit, Digit,
      Lit (CHR '':''), Digit, Digit, Lit (CHR '':''), Digit, Digit]"
  by (simp add: isoPattern_def numeral_eq_Suc)

lemma showInt_not_isoLike: "\<not> isoLike (showInt i @ CHR ''_'' # r)"
proof (cases "i < 0")
  case True
  then show ?thesis
    by (simp add: isoLike_def showInt_def isoPattern_def isDigit_def)
next
  case False
  have "\<not> isDigit (CHR ''_'')" "\<not> isDigit (CHR ''-'')" by (simp_all add: isDigit_def)
  from digits_then_other [OF showDigits_digits this] False show ?thesis
    by (simp add: isoLike_def showInt_def isoPattern_shape del: replicate.simps)
qed

lemma generateId_not_isoLike: "\<not> isoLike (fst (generateId rt w))"
  using showInt_not_isoLike by (simp add: generateId_def)

lemma nextId_not_isoLike: "\<not> isoLike (nextId rt w)"
  by (simp add: nextId_def generateId_not_isoLike)


section \<open>Creation without a parent\<close>

lemma not_hasKey_map_of: "\<not> hasKey k st \<Longrightarrow> map_of st k = None"
  by (simp add: hasKey_def map_of_eq_None_iff)

lemma set_insort_store: "set (insort_key fst kv st) = insert kv (set st)"
  by (simp add: set_insort_key)

lemma map_of_insort_new:
  "\<not> hasKey k st \<Longrightarrow> map_of (insort_key fst (k, v) st) k = Some v"
proof (induction st)
  case Nil
  then show ?case by simp
next
  case (Cons a st)
  then show ?case by (cases a) (auto simp: hasKey_def)
qed

lemma nextId_unfold:
  "nextId rt w = showInt (clock rt (Suc (clockReads w))) @ ''_'' @ random rt (randomDraws w)"
  by (simp add: nextId_def generateId_def newDate_def)

lemma stable_prop:
  assumes "distinct (map fst fs)" "map_of fs k = Some v"
    and "jsonValue rt v = Some v" "decodeProp rt v = v"
  shows "getProp k (deserializeFromStorage rt (Obj (jsonFields rt fs))) = v"
  using assms by (simp add: map_of_decodeFields map_of_jsonFields)

lemma set_selected_insort:
  assumes "Q v"
  shows "set (map f (map snd (filter (\<lambda>kv. Q (snd kv)) (insort_key fst (k, v) st)))) =
         insert (f v) (set (map f (map snd (filter (\<lambda>kv. Q (snd kv)) st))))"
  using assms by (force simp: set_insort_store)

text \<open>
  C8. A \<^verbatim>\<open>createRecording\<close> whose \<^verbatim>\<open>projectId\<close> is the id of no stored project (with a
  Blob as \<^verbatim>\<open>audioBlob\<close> and a generated id that is not in use) resolves with the Recording
  built from the input, written out below. What is stored under the new id is its storable
  form; the projects and analyses stores are unchanged, and no project lists the new id.
  \<^verbatim>\<open>getRecordingsByProject\<close> of that \<^verbatim>\<open>projectId\<close> then returns what it returned before
  and the new Recording, that is, the record of the new id as the codec decodes it: the
  round trip of the created Recording, with the same \<^verbatim>\<open>id\<close>, \<^verbatim>\<open>fileSize\<close> and
  \<^verbatim>\<open>analysisIds\<close> and the same value of every property the codec leaves alone.
\<close>

theorem createRecording_unlinked:
  assumes pid: "getProp ''projectId'' (Obj input) = Str pk"
    and nop: "\<not> hasKey pk (projects w)"
    and blob: "getProp ''audioBlob'' (Obj input) = Blob bytes mime"
    and fresh: "\<not> hasKey (nextId rt w) (recordings w)"
    and unref: "\<not> referenced (nextId rt w) w"
  shows
    "let recording = Obj
           [(''id'', Str (nextId rt w)),
            (''projectId'', Str pk),
            (''name'', getProp ''name'' (Obj input)),
            (''createdAt'', Date (ValidDate (clock rt (clockReads w)))),
            (''duration'', getProp ''duration'' (Obj input)),
            (''audioBlob'', Blob bytes mime),
            (''mimeType'', getProp ''mimeType'' (Obj input)),
            (''fileSize'', Num (int (length bytes))),
            (''source'', getProp ''source'' (Obj input)),
            (''transcript'', getProp ''transcript'' (Obj input)),
            (''transcribedAt'',
               if truthy (getProp ''transcript'' (Obj input))
               then Date (ValidDate (clock rt (clockReads w))) else Undefined),
            (''analysisIds'', Arr [])]
     in \<exists>stored w' before after x.
          createRecording rt input w = (Inr recording, w')
        \<and> serializeForStorage rt recording = Inr stored
        \<and> recordings w' = insort_key fst (nextId rt w, stored) (recordings w)
        \<and> projects w' = projects w
        \<and> analyses w' = analyses w
        \<and> \<not> referenced (nextId rt w) w'
        \<and> getRecordingsByProject rt (Str pk) w = Inr before
        \<and> getRecordingsByProject rt (Str pk) w' = Inr after
        \<and> roundTrip rt recording = Inr x
        \<and> set after = insert x (set before)
        \<and> getProp ''id'' x = Str (nextId rt w)
        \<and> getProp ''fileSize'' x = Num (int (length bytes))
        \<and> getProp ''analysisIds'' x = Arr []
        \<and> (\<forall>k v. getProp k recording = v \<and> jsonValue rt v = Some v \<and> decodeProp rt v = v
                  \<longrightarrow> getProp k x = v)"
proof -
  let ?rid = "nextId rt w"
  let ?now = "clock rt (clockReads w)"
  let ?w2 = "w\<lparr>clockReads := Suc (Suc (clockReads w)), randomDraws := Suc (randomDraws w)\<rparr>"
  define fs where "fs =
             [(''id'', Str ?rid),
              (''projectId'', Str pk),
              (''name'', getProp ''name'' (Obj input)),
              (''createdAt'', Date (ValidDate ?now)),
              (''duration'', getProp ''duration'' (Obj input)),
              (''audioBlob'', Blob bytes mime),
              (''mimeType'', getProp ''mimeType'' (Obj input)),
              (''fileSize'', Num (int (length bytes))),
              (''source'', getProp ''source'' (Obj input)),
              (''transcript'', getProp ''transcript'' (Obj input)),
              (''transcribedAt'',
                 if truthy (getProp ''transcript'' (Obj input))
                 then Date (ValidDate ?now) else Undefined),
              (''analysisIds'', Arr [])]"
  define stored where "stored = Obj (jsonFields rt fs)"
  define w' where "w' = ?w2\<lparr>recordings := insort_key fst (?rid, stored) (recordings w)\<rparr>"
  define x where "x = deserializeFromStorage rt stored"
  have d: "distinct (map fst fs)" by (simp add: fs_def)
  have sid: "map_of (jsonFields rt fs) ''id'' = Some (Str ?rid)"
    by (simp add: fs_def jsonFields_Cons)
  have spid: "map_of (jsonFields rt fs) ''projectId'' = Some (Str pk)"
    by (simp add: fs_def jsonFields_Cons)
  have link: "linkRecording rt (Str pk) ?rid ?w2 = (Inr (), ?w2)"
    using not_hasKey_map_of [OF nop]
    by (simp add: linkRecording_def getProject_def idbGet_def found_def)
  have ids: "showInt (clock rt (Suc (clockReads w))) @ CHR ''_'' # random rt (randomDraws w) = ?rid"
    by (simp add: nextId_unfold)
  have add: "idbAdd stored (recordings w) = Inr (insort_key fst (?rid, stored) (recordings w))"
    using fresh by (simp add: idbAdd_def stored_def sid)
  have build: "createRecording rt input w =
      (case serializeForStorage rt (Obj fs) of
         Inl e \<Rightarrow> (Inl e, ?w2)
       | Inr st \<Rightarrow> (case idbAdd st (recordings w) of
            Inl e \<Rightarrow> (Inl e, ?w2)
          | Inr rs \<Rightarrow> (Inr (Obj fs), ?w2\<lparr>recordings := rs\<rparr>)))"
    unfolding createRecording_def newDate_def generateId_def fs_def
    by (simp add: ids pid blob link Let_def del: getProp.simps split del: if_split
          split: sum.split)
  have ser: "serializeForStorage rt (Obj fs) = Inr stored"
    by (simp add: serialize_Obj stored_def)
  have run: "createRecording rt input w = (Inr (Obj fs), w')"
    unfolding build by (simp add: ser add w'_def)
  have sel: "getProp ''projectId'' stored = Str pk"
    by (simp add: stored_def spid)
  have before: "getRecordingsByProject rt (Str pk) w =
      Inr (map (deserializeFromStorage rt)
             (map snd (filter (\<lambda>kv. getProp ''projectId'' (snd kv) = Str pk) (recordings w))))"
    by (rule getRecordingsByProject_Str)
  have after: "getRecordingsByProject rt (Str pk) w' =
      Inr (map (deserializeFromStorage rt)
             (map snd (filter (\<lambda>kv. getProp ''projectId'' (snd kv) = Str pk)
                         (insort_key fst (?rid, stored) (recordings w)))))"
    by (simp only: getRecordingsByProject_Str) (simp add: w'_def)
  have grow: "set (map (deserializeFromStorage rt)
             (map snd (filter (\<lambda>kv. getProp ''projectId'' (snd kv) = Str pk)
                         (insort_key fst (?rid, stored) (recordings w))))) =
       insert x (set (map (deserializeFromStorage rt)
             (map snd (filter (\<lambda>kv. getProp ''projectId'' (snd kv) = Str pk) (recordings w)))))"
    unfolding x_def
    by (rule set_selected_insort [where Q = "\<lambda>v. getProp ''projectId'' v = Str pk", OF sel])
  have rt: "roundTrip rt (Obj fs) = Inr x"
    by (simp add: roundTrip_def ser x_def)
  have stable: "getProp k x = v"
    if "getProp k (Obj fs) = v" "jsonValue rt v = Some v" "decodeProp rt v = v" for k v
  proof (cases "map_of fs k")
    case None
    with that show ?thesis by simp
  next
    case (Some u)
    with that have "map_of fs k = Some v" by simp
    from stable_prop [OF d this that(2,3)] show ?thesis
      by (simp only: x_def stored_def)
  qed
  have xid: "getProp ''id'' x = Str ?rid"
    by (rule stable) (simp_all add: fs_def decodeProp_Str [OF nextId_not_isoLike])
  have xsize: "getProp ''fileSize'' x = Num (int (length bytes))"
    by (rule stable) (simp_all add: fs_def decodeProp_def)
  have xids: "getProp ''analysisIds'' x = Arr []"
    by (rule stable) (simp_all add: fs_def decodeProp_def)
  have unref': "\<not> referenced ?rid w'"
    using unref by (simp add: referenced_def w'_def)
  have fr: "recordings w' = insort_key fst (?rid, stored) (recordings w)"
    "projects w' = projects w" "analyses w' = analyses w"
    by (simp_all add: w'_def)
  from stable have stable': "\<forall>k v. getProp k (Obj fs) = v \<and> jsonValue rt v = Some v
       \<and> decodeProp rt v = v \<longrightarrow> getProp k x = v"
    by blast
  have "\<exists>stored w' before after x.
          createRecording rt input w = (Inr (Obj fs), w')
        \<and> serializeForStorage rt (Obj fs) = Inr stored
        \<and> recordings w' = insort_key fst (nextId rt w, stored) (recordings w)
        \<and> projects w' = projects w
        \<and> analyses w' = analyses w
        \<and> \<not> referenced (nextId rt w) w'
        \<and> getRecordingsByProject rt (Str pk) w = Inr before
        \<and> getRecordingsByProject rt (Str pk) w' = Inr after
        \<and> roundTrip rt (Obj fs) = Inr x
        \<and> set after = insert x (set before)
        \<and> getProp ''id'' x = Str (nextId rt w)
        \<and> getProp ''fileSize'' x = Num (int (length bytes))
        \<and> getProp ''analysisIds'' x = Arr []
        \<and> (\<forall>k v. getProp k (Obj fs) = v \<and> jsonValue rt v = Some v \<and> decodeProp rt v = v
                  \<longrightarrow> getProp k x = v)"
    by (intro exI conjI, rule run, rule ser, rule fr, rule fr, rule fr, rule unref',
        rule before, rule after, rule rt, rule grow, rule xid, rule xsize, rule xids,
        rule stable')
  then show ?thesis
    unfolding Let_def fs_def .
qed


text \<open>
  C9. A \<^verbatim>\<open>createAnalysis\<close> whose \<^verbatim>\<open>recordingId\<close> is the id of no stored recording (with
  a generated id that is not in use) resolves with the AnalysisRecord built from the
  arguments, written out below. What is stored under the new id is its storable form; the
  recordings store, and so every \<^verbatim>\<open>analysisIds\<close> list, is unchanged, as is the projects
  store. \<^verbatim>\<open>getAnalysis\<close> of the new id returns the record as the codec decodes it, the
  round trip of the created AnalysisRecord, with the same \<^verbatim>\<open>id\<close> and the same value of
  every property the codec leaves alone; \<^verbatim>\<open>getAnalysesByRecording\<close> of that
  \<^verbatim>\<open>recordingId\<close> returns what it returned before and that record.
\<close>

theorem createAnalysis_unlinked:
  assumes nor: "\<not> hasKey rk (recordings w)"
    and fresh: "\<not> hasKey (nextId rt w) (analyses w)"
  shows
    "let analysis = Obj
           [(''id'', Str (nextId rt w)),
            (''recordingId'', Str rk),
            (''projectId'', projectId),
            (''createdAt'', Date (ValidDate (clock rt (clockReads w)))),
            (''checklistSnapshot'', checklistSnapshot),
            (''result'', result),
            (''transcriptSnapshot'', transcriptSnapshot)]
     in \<exists>stored w' before after x.
          createAnalysis rt (Str rk) projectId checklistSnapshot result transcriptSnapshot w
            = (Inr analysis, w')
        \<and> serializeForStorage rt analysis = Inr stored
        \<and> analyses w' = insort_key fst (nextId rt w, stored) (analyses w)
        \<and> projects w' = projects w
        \<and> recordings w' = recordings w
        \<and> getAnalysesByRecording rt (Str rk) w = Inr before
        \<and> getAnalysesByRecording rt (Str rk) w' = Inr after
        \<and> roundTrip rt analysis = Inr x
        \<and> getAnalysis rt (Str (nextId rt w)) w' = Inr x
        \<and> set after = insert x (set before)
        \<and> getProp ''id'' x = Str (nextId rt w)
        \<and> (\<forall>k v. getProp k analysis = v \<and> jsonValue rt v = Some v \<and> decodeProp rt v = v
                  \<longrightarrow> getProp k x = v)"
proof -
  let ?aid = "nextId rt w"
  let ?now = "clock rt (clockReads w)"
  let ?w2 = "w\<lparr>clockReads := Suc (Suc (clockReads w)), randomDraws := Suc (randomDraws w)\<rparr>"
  define fs where "fs =
             [(''id'', Str ?aid),
              (''recordingId'', Str rk),
              (''projectId'', projectId),
              (''createdAt'', Date (ValidDate ?now)),
              (''checklistSnapshot'', checklistSnapshot),
              (''result'', result),
              (''transcriptSnapshot'', transcriptSnapshot)]"
  define stored where "stored = Obj (jsonFields rt fs)"
  define w' where "w' = ?w2\<lparr>analyses := insort_key fst (?aid, stored) (analyses w)\<rparr>"
  define x where "x = deserializeFromStorage rt stored"
  have d: "distinct (map fst fs)" by (simp add: fs_def)
  have sid: "map_of (jsonFields rt fs) ''id'' = Some (Str ?aid)"
    by (simp add: fs_def jsonFields_Cons)
  have srid: "map_of (jsonFields rt fs) ''recordingId'' = Some (Str rk)"
    by (simp add: fs_def jsonFields_Cons)
  have link: "linkAnalysis rt (Str rk) ?aid ?w2 = (Inr (), ?w2)"
    using not_hasKey_map_of [OF nor]
    by (simp add: linkAnalysis_def getRecording_def idbGet_def found_def)
  have ids: "showInt (clock rt (Suc (clockReads w))) @ CHR ''_'' # random rt (randomDraws w) = ?aid"
    by (simp add: nextId_unfold)
  have add: "idbAdd stored (analyses w) = Inr (insort_key fst (?aid, stored) (analyses w))"
    using fresh by (simp add: idbAdd_def stored_def sid)
  have build: "createAnalysis rt (Str rk) projectId checklistSnapshot result transcriptSnapshot w =
      (case serializeForStorage rt (Obj fs) of
         Inl e \<Rightarrow> (Inl e, ?w2)
       | Inr st \<Rightarrow> (case idbAdd st (analyses w) of
            Inl e \<Rightarrow> (Inl e, ?w2)
          | Inr rs \<Rightarrow> (Inr (Obj fs), ?w2\<lparr>analyses := rs\<rparr>)))"
    unfolding createAnalysis_def newDate_def generateId_def fs_def
    by (simp add: ids link Let_def split: sum.split)
  have ser: "serializeForStorage rt (Obj fs) = Inr stored"
    by (simp add: serialize_Obj stored_def)
  have run: "createAnalysis rt (Str rk) projectId checklistSnapshot result transcriptSnapshot w
               = (Inr (Obj fs), w')"
    unfolding build by (simp add: ser add w'_def)
  have sel: "getProp ''recordingId'' stored = Str rk"
    by (simp add: stored_def srid)
  have before: "getAnalysesByRecording rt (Str rk) w =
      Inr (map (deserializeFromStorage rt)
             (map snd (filter (\<lambda>kv. getProp ''recordingId'' (snd kv) = Str rk) (analyses w))))"
    by (rule getAnalysesByRecording_Str)
  have after: "getAnalysesByRecording rt (Str rk) w' =
      Inr (map (deserializeFromStorage rt)
             (map snd (filter (\<lambda>kv. getProp ''recordingId'' (snd kv) = Str rk)
                         (insort_key fst (?aid, stored) (analyses w)))))"
    by (simp only: getAnalysesByRecording_Str) (simp add: w'_def)
  have grow: "set (map (deserializeFromStorage rt)
             (map snd (filter (\<lambda>kv. getProp ''recordingId'' (snd kv) = Str rk)
                         (insort_key fst (?aid, stored) (analyses w))))) =
       insert x (set (map (deserializeFromStorage rt)
             (map snd (filter (\<lambda>kv. getProp ''recordingId'' (snd kv) = Str rk) (analyses w)))))"
    unfolding x_def
    by (rule set_selected_insort [where Q = "\<lambda>v. getProp ''recordingId'' v = Str rk", OF sel])
  have get: "getAnalysis rt (Str ?aid) w' = Inr x"
    using map_of_insort_new [OF fresh, of stored]
    by (simp add: getAnalysis_def idbGet_def found_def w'_def stored_def x_def)
  have rt: "roundTrip rt (Obj fs) = Inr x"
    by (simp add: roundTrip_def ser x_def)
  have stable: "getProp k x = v"
    if "getProp k (Obj fs) = v" "jsonValue rt v = Some v" "decodeProp rt v = v" for k v
  proof (cases "map_of fs k")
    case None
    with that show ?thesis by simp
  next
    case (Some u)
    with that have "map_of fs k = Some v" by simp
    from stable_prop [OF d this that(2,3)] show ?thesis
      by (simp only: x_def stored_def)
  qed
  have xid: "getProp ''id'' x = Str ?aid"
    by (rule stable) (simp_all add: fs_def decodeProp_Str [OF nextId_not_isoLike])
  have fr: "analyses w' = insort_key fst (?aid, stored) (analyses w)"
    "projects w' = projects w" "recordings w' = recordings w"
    by (simp_all add: w'_def)
  from stable have stable': "\<forall>k v. getProp k (Obj fs) = v \<and> jsonValue rt v = Some v
       \<and> decodeProp rt v = v \<longrightarrow> getProp k x = v"
    by blast
  have "\<exists>stored w' before after x.
          createAnalysis rt (Str rk) projectId checklistSnapshot result transcriptSnapshot w
            = (Inr (Obj fs), w')
        \<and> serializeForStorage rt (Obj fs) = Inr stored
        \<and> analyses w' = insort_key fst (nextId rt w, stored) (analyses w)
        \<and> projects w' = projects w
        \<and> recordings w' = recordings w
        \<and> getAnalysesByRecording rt (Str rk) w = Inr before
        \<and> getAnalysesByRecording rt (Str rk) w' = Inr after
        \<and> roundTrip rt (Obj fs) = Inr x
        \<and> getAnalysis rt (Str (nextId rt w)) w' = Inr x
        \<and> set after = insert x (set before)
        \<and> getProp ''id'' x = Str (nextId rt w)
        \<and> (\<forall>k v. getProp k (Obj fs) = v \<and> jsonValue rt v = Some v \<and> decodeProp rt v = v
                  \<longrightarrow> getProp k x = v)"
    by (intro exI conjI, rule run, rule ser, rule fr, rule fr, rule fr,
        rule before, rule after, rule rt, rule get, rule grow, rule xid, rule stable')
  then show ?thesis
    unfolding Let_def fs_def .
qed

theorem createRecording_unlinked_witness:
  "getProp ''projectId'' (Obj orphanInput) = Str ''missing''
   \<and> \<not> hasKey ''missing'' (projects sampleWorld)
   \<and> getProp ''audioBlob'' (Obj orphanInput) = Blob [82, 73, 70, 70] ''audio/webm''
   \<and> \<not> hasKey (nextId referenceRuntime sampleWorld) (recordings sampleWorld)
   \<and> \<not> referenced (nextId referenceRuntime sampleWorld) sampleWorld
   \<and> (\<exists>r w' after x. createRecording referenceRuntime orphanInput sampleWorld = (Inr r, w')
       \<and> getProp ''id'' r = Str (nextId referenceRuntime sampleWorld)
       \<and> getProp ''name'' r = Str ''call-2''
       \<and> getProp ''duration'' r = Num 60
       \<and> projects w' = projects sampleWorld
       \<and> \<not> referenced (nextId referenceRuntime sampleWorld) w'
       \<and> getRecordingsByProject referenceRuntime (Str ''missing'') w' = Inr after
       \<and> roundTrip referenceRuntime r = Inr x
       \<and> set after = {x}
       \<and> getProp ''id'' x = Str (nextId referenceRuntime sampleWorld))"
proof -
  have h1: "getProp ''projectId'' (Obj orphanInput) = Str ''missing''"
    by (simp add: orphanInput_def)
  have h2: "\<not> hasKey ''missing'' (projects sampleWorld)" by code_simp
  have h3: "getProp ''audioBlob'' (Obj orphanInput) = Blob [82, 73, 70, 70] ''audio/webm''"
    by (simp add: orphanInput_def)
  have h4: "\<not> hasKey (nextId referenceRuntime sampleWorld) (recordings sampleWorld)"
    by code_simp
  have h5: "\<not> referenced (nextId referenceRuntime sampleWorld) sampleWorld"
    by code_simp
  have none: "getRecordingsByProject referenceRuntime (Str ''missing'') sampleWorld = Inr []"
    by code_simp
  have f: "getProp ''name'' (Obj orphanInput) = Str ''call-2''"
    "getProp ''duration'' (Obj orphanInput) = Num 60"
    by (simp_all add: orphanInput_def)
  let ?r = "Obj
           [(''id'', Str (nextId referenceRuntime sampleWorld)),
            (''projectId'', Str ''missing''),
            (''name'', getProp ''name'' (Obj orphanInput)),
            (''createdAt'', Date (ValidDate (clock referenceRuntime (clockReads sampleWorld)))),
            (''duration'', getProp ''duration'' (Obj orphanInput)),
            (''audioBlob'', Blob [82, 73, 70, 70] ''audio/webm''),
            (''mimeType'', getProp ''mimeType'' (Obj orphanInput)),
            (''fileSize'', Num (int (length [82, 73, 70, 70 :: nat]))),
            (''source'', getProp ''source'' (Obj orphanInput)),
            (''transcript'', getProp ''transcript'' (Obj orphanInput)),
            (''transcribedAt'',
               if truthy (getProp ''transcript'' (Obj orphanInput))
               then Date (ValidDate (clock referenceRuntime (clockReads sampleWorld)))
               else Undefined),
            (''analysisIds'', Arr [])]"
  from createRecording_unlinked [OF h1 h2 h3 h4 h5, unfolded Let_def]
  obtain stored w' before after x where
    c: "createRecording referenceRuntime orphanInput sampleWorld = (Inr ?r, w')"
    and p: "projects w' = projects sampleWorld"
    and u: "\<not> referenced (nextId referenceRuntime sampleWorld) w'"
    and b: "getRecordingsByProject referenceRuntime (Str ''missing'') sampleWorld = Inr before"
    and a: "getRecordingsByProject referenceRuntime (Str ''missing'') w' = Inr after"
    and r: "roundTrip referenceRuntime ?r = Inr x"
    and g: "set after = insert x (set before)"
    and i: "getProp ''id'' x = Str (nextId referenceRuntime sampleWorld)"
    by blast
  from b none have "before = []" by simp
  with g have g': "set after = {x}" by simp
  have n: "getProp ''id'' ?r = Str (nextId referenceRuntime sampleWorld)"
    "getProp ''name'' ?r = Str ''call-2''" "getProp ''duration'' ?r = Num 60"
    using f by (simp_all split del: if_split)
  from c n p u a r g' i have "\<exists>r w' after x.
         createRecording referenceRuntime orphanInput sampleWorld = (Inr r, w')
       \<and> getProp ''id'' r = Str (nextId referenceRuntime sampleWorld)
       \<and> getProp ''name'' r = Str ''call-2''
       \<and> getProp ''duration'' r = Num 60
       \<and> projects w' = projects sampleWorld
       \<and> \<not> referenced (nextId referenceRuntime sampleWorld) w'
       \<and> getRecordingsByProject referenceRuntime (Str ''missing'') w' = Inr after
       \<and> roundTrip referenceRuntime r = Inr x
       \<and> set after = {x}
       \<and> getProp ''id'' x = Str (nextId referenceRuntime sampleWorld)"
    by (intro exI conjI)
  with h1 h2 h3 h4 h5 show ?thesis by (intro conjI)
qed

theorem createAnalysis_unlinked_witness:
  "\<not> hasKey ''gone'' (recordings sampleWorld)
   \<and> \<not> hasKey (nextId referenceRuntime sampleWorld) (analyses sampleWorld)
   \<and> (\<exists>a w' after x.
         createAnalysis referenceRuntime (Str ''gone'') (Str acmeId) (Obj []) (Obj []) (Str ''hi'')
           sampleWorld = (Inr a, w')
       \<and> getProp ''id'' a = Str (nextId referenceRuntime sampleWorld)
       \<and> getProp ''transcriptSnapshot'' a = Str ''hi''
       \<and> recordings w' = recordings sampleWorld
       \<and> roundTrip referenceRuntime a = Inr x
       \<and> getAnalysis referenceRuntime (Str (nextId referenceRuntime sampleWorld)) w' = Inr x
       \<and> getAnalysesByRecording referenceRuntime (Str ''gone'') w' = Inr after
       \<and> x \<in> set after
       \<and> getProp ''id'' x = Str (nextId referenceRuntime sampleWorld))"
proof -
  have h1: "\<not> hasKey ''gone'' (recordings sampleWorld)" by code_simp
  have h2: "\<not> hasKey (nextId referenceRuntime sampleWorld) (analyses sampleWorld)"
    by code_simp
  let ?a = "Obj
           [(''id'', Str (nextId referenceRuntime sampleWorld)),
            (''recordingId'', Str ''gone''),
            (''projectId'', Str acmeId),
            (''createdAt'', Date (ValidDate (clock referenceRuntime (clockReads sampleWorld)))),
            (''checklistSnapshot'', Obj []),
            (''result'', Obj []),
            (''transcriptSnapshot'', Str ''hi'')]"
  from createAnalysis_unlinked [OF h1 h2, unfolded Let_def,
      of "Str acmeId" "Obj []" "Obj []" "Str ''hi''"]
  obtain stored w' before after x where
    c: "createAnalysis referenceRuntime (Str ''gone'') (Str acmeId) (Obj []) (Obj []) (Str ''hi'')
          sampleWorld = (Inr ?a, w')"
    and p: "recordings w' = recordings sampleWorld"
    and a: "getAnalysesByRecording referenceRuntime (Str ''gone'') w' = Inr after"
    and r: "roundTrip referenceRuntime ?a = Inr x"
    and q: "getAnalysis referenceRuntime (Str (nextId referenceRuntime sampleWorld)) w' = Inr x"
    and g: "set after = insert x (set before)"
    and i: "getProp ''id'' x = Str (nextId referenceRuntime sampleWorld)"
    by blast
  from g have g': "x \<in> set after" by simp
  have n: "getProp ''id'' ?a = Str (nextId referenceRuntime sampleWorld)"
    "getProp ''transcriptSnapshot'' ?a = Str ''hi''"
    by simp_all
  from c n p r q a g' i have "\<exists>a w' after x.
         createAnalysis referenceRuntime (Str ''gone'') (Str acmeId) (Obj []) (Obj []) (Str ''hi'')
           sampleWorld = (Inr a, w')
       \<and> getProp ''id'' a = Str (nextId referenceRuntime sampleWorld)
       \<and> getProp ''transcriptSnapshot'' a = Str ''hi''
       \<and> recordings w' = recordings sampleWorld
       \<and> roundTrip referenceRuntime a = Inr x
       \<and> getAnalysis referenceRuntime (Str (nextId referenceRuntime sampleWorld)) w' = Inr x
       \<and> getAnalysesByRecording referenceRuntime (Str ''gone'') w' = Inr after
       \<and> x \<in> set after
       \<and> getProp ''id'' x = Str (nextId referenceRuntime sampleWorld)"
    by (intro exI conjI)
  with h1 h2 show ?thesis by (intro conjI)
qed

section \<open>Statistics over the corpus\<close>

lemma indexEntries_all:
  "list_all (\<lambda>kv. isStr (getProp field (snd kv))) st \<Longrightarrow> map snd (indexEntries field st) = map snd st"
proof (induction st)
  case Nil
  then show ?case by simp
next
  case (Cons a st)
  then show ?case by (cases "getProp field (snd a)") (simp_all del: getProp.simps)
qed

lemma sum_list_insort: "sum_list (map f (insort_key k x xs)) = f x + sum_list (map f xs)"
  for f :: "'a \<Rightarrow> int" and k :: "'a \<Rightarrow> 'b::linorder"
  by (induction xs) auto

lemma sum_list_sort: "sum_list (map f (sort_key k xs)) = sum_list (map f xs)"
  for f :: "'a \<Rightarrow> int" and k :: "'a \<Rightarrow> 'b::linorder"
  by (induction xs) (auto simp: sum_list_insort)

lemma sum_list_cursor:
  fixes f :: "jsval \<Rightarrow> int"
  assumes "list_all (\<lambda>kv. isStr (getProp field (snd kv))) st"
  shows "sum_list (map f (cursorPrev field st)) = sum_list (map f (map snd st))"
proof -
  have "sum_list (map f (cursorPrev field st)) =
        sum_list (map (f \<circ> snd) (rev (sort_key fst (indexEntries field st))))"
    by (simp add: cursorPrev_def)
  also have "\<dots> = sum_list (map (f \<circ> snd) (sort_key fst (indexEntries field st)))"
    by (simp only: rev_map [symmetric] sum_list_rev)
  also have "\<dots> = sum_list (map (f \<circ> snd) (indexEntries field st))"
    by (rule sum_list_sort)
  also have "\<dots> = sum_list (map f (map snd (indexEntries field st)))"
    by simp
  finally show ?thesis
    by (simp only: indexEntries_all [OF assms])
qed

lemma set_cursor:
  assumes "list_all (\<lambda>kv. isStr (getProp field (snd kv))) st"
  shows "set (cursorPrev field st) = snd ` set st"
proof -
  have "set (cursorPrev field st) = set (map snd (indexEntries field st))"
    by (simp add: cursorPrev_def)
  then show ?thesis
    by (simp only: indexEntries_all [OF assms] set_map)
qed

lemma statsRecordings_ok:
  assumes "list_all recordOk sel"
  shows "\<exists>acc'. statsRecordings rt w (map (deserializeFromStorage rt) (map snd sel)) acc = Inr acc'
     \<and> totalRecordings acc' = totalRecordings acc
     \<and> projectsByStatus acc' = projectsByStatus acc"
  using assms
proof (induction sel arbitrary: acc)
  case Nil
  then show ?case by simp
next
  case (Cons a sel)
  obtain k v where a: "a = (k, v)" by (cases a)
  from Cons.prems have okkv: "recordOk (k, v)" and rest: "list_all recordOk sel"
    by (simp_all add: a)
  let ?acc1 = "acc\<lparr>totalRecordingDuration :=
                    jsAdd rt (totalRecordingDuration acc)
                      (getProp ''duration'' (deserializeFromStorage rt v)),
                  totalAnalyses := totalAnalyses acc + int (length
                    (filter (\<lambda>kv. getProp ''recordingId'' (snd kv) = Str k) (analyses w)))\<rparr>"
  from Cons.IH [OF rest, of ?acc1] show ?case
    by (simp del: map_map add: a getProp_id_decoded [OF okkv] getAnalysesByRecording_Str)
qed


lemma bumpStatus_lookup:
  "map_of (bumpStatus rt st c) s =
     (if propertyKey rt st = s
      then Some (case map_of c s of Some (Num n) \<Rightarrow> Num (n + 1) | _ \<Rightarrow> NaN)
      else map_of c s)"
  by (simp add: bumpStatus_def map_of_setProp)

lemma statsProjects_ok:
  assumes sr: "storeOk (recordings w)"
    and vs: "\<forall>v \<in> set vs. \<exists>k. recordOk (k, v)"
  shows "\<exists>acc'. statsProjects rt w (map (deserializeFromStorage rt) vs) acc = Inr acc'
     \<and> totalRecordings acc' = totalRecordings acc
          + sum_list (map (\<lambda>v. case getProp ''id'' v of Str k \<Rightarrow> recordingCount rt w k | _ \<Rightarrow> 0) vs)
     \<and> (\<forall>s n. map_of (projectsByStatus acc) s = Some (Num n) \<longrightarrow>
           map_of (projectsByStatus acc') s =
             Some (Num (n + int (length (filter (\<lambda>p. propertyKey rt (getProp ''status'' p) = s)
                                           (map (deserializeFromStorage rt) vs))))))"
  using vs
proof (induction vs arbitrary: acc)
  case Nil
  then show ?case by simp
next
  case (Cons v vs)
  from Cons.prems obtain k where okkv: "recordOk (k, v)" by auto
  from Cons.prems have rest: "\<forall>v \<in> set vs. \<exists>k. recordOk (k, v)" by simp
  let ?p = "deserializeFromStorage rt v"
  let ?sel = "filter (\<lambda>kv. getProp ''projectId'' (snd kv) = Str k) (recordings w)"
  let ?acc0 = "acc\<lparr>projectsByStatus := bumpStatus rt (getProp ''status'' ?p) (projectsByStatus acc),
                    totalRecordings := totalRecordings acc + int (length ?sel)\<rparr>"
  from sr have sel: "list_all recordOk ?sel"
    by (auto simp: storeOk_def list_all_iff)
  from statsRecordings_ok [OF sel, of rt w ?acc0]
  obtain acc1 where
    inner: "statsRecordings rt w (map (deserializeFromStorage rt) (map snd ?sel)) ?acc0 = Inr acc1"
    and t1: "totalRecordings acc1 = totalRecordings acc + int (length ?sel)"
    and b1: "projectsByStatus acc1 = bumpStatus rt (getProp ''status'' ?p) (projectsByStatus acc)"
    by auto
  from Cons.IH [OF rest, of acc1]
  obtain acc' where
    run: "statsProjects rt w (map (deserializeFromStorage rt) vs) acc1 = Inr acc'"
    and t: "totalRecordings acc' = totalRecordings acc1
         + sum_list (map (\<lambda>v. case getProp ''id'' v of Str k \<Rightarrow> recordingCount rt w k | _ \<Rightarrow> 0) vs)"
    and b: "\<forall>s n. map_of (projectsByStatus acc1) s = Some (Num n) \<longrightarrow>
           map_of (projectsByStatus acc') s =
             Some (Num (n + int (length (filter (\<lambda>p. propertyKey rt (getProp ''status'' p) = s)
                                           (map (deserializeFromStorage rt) vs)))))"
    by blast
  from okkv have idv: "getProp ''id'' v = Str k"
    by (auto elim: recordOk_fields)
  have cnt: "recordingCount rt w k = int (length ?sel)"
    by (simp add: recordingCount_def getRecordingsByProject_Str)
  have step: "statsProjects rt w (map (deserializeFromStorage rt) (v # vs)) acc = Inr acc'"
    by (simp del: map_map add: getProp_id_decoded [OF okkv] getRecordingsByProject_Str inner run)
  have tot: "totalRecordings acc' = totalRecordings acc
     + sum_list (map (\<lambda>v. case getProp ''id'' v of Str k \<Rightarrow> recordingCount rt w k | _ \<Rightarrow> 0) (v # vs))"
    by (simp add: t t1 idv cnt del: getProp.simps)
  have st: "map_of (projectsByStatus acc') s =
             Some (Num (n + int (length (filter (\<lambda>p. propertyKey rt (getProp ''status'' p) = s)
                                           (map (deserializeFromStorage rt) (v # vs))))))"
    if "map_of (projectsByStatus acc) s = Some (Num n)" for s n
  proof (cases "propertyKey rt (getProp ''status'' ?p) = s")
    case True
    with that have "map_of (projectsByStatus acc1) s = Some (Num (n + 1))"
      by (simp add: b1 bumpStatus_lookup del: getProp.simps)
    from b [rule_format, OF this] True show ?thesis
      by (simp del: getProp.simps add: algebra_simps)
  next
    case False
    with that have "map_of (projectsByStatus acc1) s = Some (Num n)"
      by (simp add: b1 bumpStatus_lookup del: getProp.simps)
    from b [rule_format, OF this] False show ?thesis
      by (simp del: getProp.simps)
  qed
  from step tot st show ?case by blast
qed

text \<open>
  C6. In every state of the stores \<^verbatim>\<open>getProjectStats\<close> resolves; its \<^verbatim>\<open>totalRecordings\<close>
  is the sum, over the stored projects, of the number of recordings
  \<^verbatim>\<open>getRecordingsByProject\<close> returns for the project's id; and \<^verbatim>\<open>projectsByStatus\<close> has, for
  each of \<^verbatim>\<open>draft\<close>, \<^verbatim>\<open>in_progress\<close>, \<^verbatim>\<open>completed\<close> and \<^verbatim>\<open>archived\<close>, the number of
  projects with that status, zero included. A state of the stores is one in which the
  projects and recordings stores are as IndexedDB and \<^verbatim>\<open>generateId\<close> leave them and every
  project has its \<^verbatim>\<open>updatedAt\<close> string; nothing is asked of \<^verbatim>\<open>projectId\<close>,
  \<^verbatim>\<open>recordingIds\<close> or the analyses.
\<close>

theorem getProjectStats_totals:
  assumes sp: "storeOk (projects w)"
    and sr: "storeOk (recordings w)"
    and ix: "indexedByUpdatedAt (projects w)"
  shows "\<exists>stats. getProjectStats rt w = Inr stats
     \<and> totalRecordings stats = sum_list (map (\<lambda>kv. recordingCount rt w (fst kv)) (projects w))
     \<and> (\<forall>s \<in> set [''draft'', ''in_progress'', ''completed'', ''archived''].
           map_of (projectsByStatus stats) s = Some (Num (statusCount rt w s)))"
proof -
  let ?vs = "cursorPrev ''updatedAt'' (projects w)"
  let ?init = "\<lparr>totalProjects = 0,
              projectsByStatus =
                [(''draft'', Num 0), (''in_progress'', Num 0),
                 (''completed'', Num 0), (''archived'', Num 0)],
              totalRecordings = 0, totalAnalyses = 0, totalRecordingDuration = Num 0\<rparr>"
  let ?g = "\<lambda>v. case getProp ''id'' v of Str k \<Rightarrow> recordingCount rt w k | _ \<Rightarrow> 0"
  from ix have upd: "list_all (\<lambda>kv. isStr (getProp ''updatedAt'' (snd kv))) (projects w)"
    by (simp add: indexedByUpdatedAt_def)
  have vs: "\<forall>v \<in> set ?vs. \<exists>k. recordOk (k, v)"
    using sp by (force simp: set_cursor [OF upd] storeOk_def list_all_iff)
  from statsProjects_ok [OF sr vs, of rt ?init]
  obtain acc where run: "statsProjects rt w (map (deserializeFromStorage rt) ?vs) ?init = Inr acc"
    and tot: "totalRecordings acc = sum_list (map ?g ?vs)"
    and st: "\<forall>s n. map_of (projectsByStatus ?init) s = Some (Num n) \<longrightarrow>
           map_of (projectsByStatus acc) s =
             Some (Num (n + int (length (filter (\<lambda>p. propertyKey rt (getProp ''status'' p) = s)
                                           (map (deserializeFromStorage rt) ?vs)))))"
    by auto
  have "sum_list (map ?g ?vs) = sum_list (map ?g (map snd (projects w)))"
    by (rule sum_list_cursor [OF upd])
  also have "\<dots> = sum_list (map (\<lambda>kv. recordingCount rt w (fst kv)) (projects w))"
  proof -
    have "?g (snd kv) = recordingCount rt w (fst kv)" if "kv \<in> set (projects w)" for kv
    proof -
      from sp that have "recordOk (fst kv, snd kv)" by (simp add: storeOk_def list_all_iff)
      then have "getProp ''id'' (snd kv) = Str (fst kv)"
        by (rule recordOk_fields) simp
      then show ?thesis by (simp del: getProp.simps)
    qed
    then show ?thesis
      unfolding map_map comp_def by (intro arg_cong [where f = sum_list] map_cong refl)
  qed
  finally have total: "totalRecordings acc =
      sum_list (map (\<lambda>kv. recordingCount rt w (fst kv)) (projects w))"
    using tot by simp
  have res: "getProjectStats rt w = Inr (acc\<lparr>totalProjects := int (length (getAllProjects rt w))\<rparr>)"
    by (simp add: getProjectStats_def getAllProjects_def run)
  have counts: "map_of (projectsByStatus acc) s = Some (Num (statusCount rt w s))"
    if "s \<in> set [''draft'', ''in_progress'', ''completed'', ''archived'']" for s
  proof -
    from that have "map_of (projectsByStatus ?init) s = Some (Num 0)" by auto
    from st [rule_format, OF this] show ?thesis
      by (simp add: statusCount_def getAllProjects_def)
  qed
  from res total counts show ?thesis by simp
qed

theorem getProjectStats_totals_witness:
  "storeOk (projects strayWorld) \<and> storeOk (recordings strayWorld)
   \<and> indexedByUpdatedAt (projects strayWorld)
   \<and> (\<exists>stats. getProjectStats referenceRuntime strayWorld = Inr stats
     \<and> totalRecordings stats = 1
     \<and> sum_list (map (\<lambda>kv. recordingCount referenceRuntime strayWorld (fst kv))
                   (projects strayWorld)) = 1
     \<and> map_of (projectsByStatus stats) ''draft'' = Some (Num 1)
     \<and> map_of (projectsByStatus stats) ''in_progress'' = Some (Num 0)
     \<and> map_of (projectsByStatus stats) ''completed'' = Some (Num 0)
     \<and> map_of (projectsByStatus stats) ''archived'' = Some (Num 0))"
proof -
  have h: "storeOk (projects strayWorld)" "storeOk (recordings strayWorld)"
    "indexedByUpdatedAt (projects strayWorld)"
    by code_simp+
  have s: "sum_list (map (\<lambda>kv. recordingCount referenceRuntime strayWorld (fst kv))
                   (projects strayWorld)) = 1"
    by code_simp
  have c: "statusCount referenceRuntime strayWorld ''draft'' = 1"
    "statusCount referenceRuntime strayWorld ''in_progress'' = 0"
    "statusCount referenceRuntime strayWorld ''completed'' = 0"
    "statusCount referenceRuntime strayWorld ''archived'' = 0"
    by code_simp+
  from getProjectStats_totals [OF h, of referenceRuntime] h s c show ?thesis
    by auto
qed

section \<open>Export of the corpus\<close>

lemma exportRecordings_ok:
  assumes "list_all recordOk sel"
  shows "exportRecordings rt w (map (deserializeFromStorage rt) (map snd sel)) acc =
     Inr (fst acc @ map (\<lambda>kv. withoutBlob (deserializeFromStorage rt (snd kv))) sel,
          snd acc @ concat (map (\<lambda>kv. map (deserializeFromStorage rt)
                 (map snd (filter (\<lambda>a. getProp ''recordingId'' (snd a) = Str (fst kv)) (analyses w)))) sel))"
  using assms
proof (induction sel arbitrary: acc)
  case Nil
  then show ?case by simp
next
  case (Cons a sel)
  obtain k v where a: "a = (k, v)" by (cases a)
  from Cons.prems have okkv: "recordOk (k, v)" and rest: "list_all recordOk sel"
    by (simp_all add: a)
  show ?case
    using Cons.IH [OF rest]
    by (simp del: map_map deserialize_Obj add: a getProp_id_decoded [OF okkv] getAnalysesByRecording_Str)
qed

lemma exportProjects_ok:
  assumes sr: "storeOk (recordings w)"
    and vs: "list_all recordOk sel"
  shows "exportProjects rt w (map (deserializeFromStorage rt) (map snd sel)) acc =
     Inr (fst acc @ concat (map (\<lambda>p. map (\<lambda>kv. withoutBlob (deserializeFromStorage rt (snd kv)))
                  (filter (\<lambda>r. getProp ''projectId'' (snd r) = Str (fst p)) (recordings w))) sel),
          snd acc @ concat (map (\<lambda>p. concat (map (\<lambda>kv. map (deserializeFromStorage rt)
                 (map snd (filter (\<lambda>a. getProp ''recordingId'' (snd a) = Str (fst kv)) (analyses w))))
                  (filter (\<lambda>r. getProp ''projectId'' (snd r) = Str (fst p)) (recordings w)))) sel))"
  using vs
proof (induction sel arbitrary: acc)
  case Nil
  then show ?case by simp
next
  case (Cons a sel)
  obtain k v where a: "a = (k, v)" by (cases a)
  from Cons.prems have okkv: "recordOk (k, v)" and rest: "list_all recordOk sel"
    by (simp_all add: a)
  let ?rs = "filter (\<lambda>r. getProp ''projectId'' (snd r) = Str k) (recordings w)"
  from sr have rs: "list_all recordOk ?rs"
    by (auto simp: storeOk_def list_all_iff)
  show ?case
    using Cons.IH [OF rest]
    by (simp del: map_map deserialize_Obj
          add: a getProp_id_decoded [OF okkv] getRecordingsByProject_Str exportRecordings_ok [OF rs])
qed

lemma indexEntries_pairs:
  "list_all (\<lambda>kv. isStr (getProp field (snd kv))) st \<Longrightarrow>
   map (\<lambda>e. (snd (fst e), snd e)) (indexEntries field st) = st"
proof (induction st)
  case Nil
  then show ?case by simp
next
  case (Cons a st)
  then show ?case by (cases "getProp field (snd a)") (simp_all del: getProp.simps)
qed

lemma cursor_pairs:
  assumes "list_all (\<lambda>kv. isStr (getProp field (snd kv))) st"
  obtains sel where "cursorPrev field st = map snd sel" "set sel = set st"
proof
  let ?sel = "map (\<lambda>e. (snd (fst e), snd e)) (rev (sort_key fst (indexEntries field st)))"
  show "cursorPrev field st = map snd ?sel"
    by (simp add: cursorPrev_def comp_def)
  have "set ?sel = set (map (\<lambda>e. (snd (fst e), snd e)) (indexEntries field st))"
    by simp
  then show "set ?sel = set st"
    by (simp only: indexEntries_pairs [OF assms])
qed

lemma map_of_filter_key:
  "map_of (filter (\<lambda>kv. fst kv \<noteq> b) fs) k = (if k = b then None else map_of fs k)"
  by (induction fs) auto

lemma getProp_withoutBlob:
  "getProp k (withoutBlob (Obj fs)) = (if k = ''audioBlob'' then Undefined else getProp k (Obj fs))"
  by (simp add: withoutBlob_def map_of_filter_key)

lemma set_concat_filter:
  "set (concat (map (\<lambda>p. map f (filter (P p) xs)) sel)) = (\<Union>p \<in> set sel. f ` {x \<in> set xs. P p x})"
  by (induction sel) auto

lemma set_concat_nested:
  "set (concat (map (\<lambda>p. concat (map (\<lambda>r. map g (map snd (filter (Q r) ys))) (filter (P p) xs))) sel)) =
     (\<Union>p \<in> set sel. \<Union>r \<in> {x \<in> set xs. P p x}. (\<lambda>a. g (snd a)) ` {a \<in> set ys. Q r a})"
  by (induction sel) auto

text \<open>
  C7, as the code has it. \<^verbatim>\<open>exportAllData\<close> resolves with every stored project; with
  every stored recording whose \<^verbatim>\<open>projectId\<close> is the id of a stored project, as read from
  the store and with only \<^verbatim>\<open>audioBlob\<close> removed (every other property keeps its value);
  and with every stored analysis whose \<^verbatim>\<open>recordingId\<close> is the id of such a recording.
  It holds in every state in which the projects and recordings stores are as IndexedDB and
  \<^verbatim>\<open>generateId\<close> leave them and every project has its \<^verbatim>\<open>updatedAt\<close> string.
\<close>

theorem exportAllData_reachable:
  assumes sp: "storeOk (projects w)"
    and sr: "storeOk (recordings w)"
    and ix: "indexedByUpdatedAt (projects w)"
  shows "\<exists>ps rs as. exportAllData rt w = Inr (ps, rs, as)
     \<and> set ps = (\<lambda>p. deserializeFromStorage rt (snd p)) ` set (projects w)
     \<and> set rs = (\<lambda>r. withoutBlob (deserializeFromStorage rt (snd r)))
                   ` set (filter (reachableRecording w) (recordings w))
     \<and> set as = (\<lambda>a. deserializeFromStorage rt (snd a))
                   ` set (filter (reachableAnalysis w) (analyses w))
     \<and> (\<forall>r \<in> set (recordings w). \<forall>k.
           getProp k (withoutBlob (deserializeFromStorage rt (snd r))) =
             (if k = ''audioBlob'' then Undefined
              else getProp k (deserializeFromStorage rt (snd r))))"
proof -
  from ix have upd: "list_all (\<lambda>kv. isStr (getProp ''updatedAt'' (snd kv))) (projects w)"
    by (simp add: indexedByUpdatedAt_def)
  from cursor_pairs [OF upd] obtain sel where
    cur: "cursorPrev ''updatedAt'' (projects w) = map snd sel" and sel: "set sel = set (projects w)"
    by blast
  from sp sel have ok: "list_all recordOk sel"
    by (simp add: storeOk_def list_all_iff)
  let ?R = "concat (map (\<lambda>p. map (\<lambda>kv. withoutBlob (deserializeFromStorage rt (snd kv)))
                  (filter (\<lambda>r. getProp ''projectId'' (snd r) = Str (fst p)) (recordings w))) sel)"
  let ?A = "concat (map (\<lambda>p. concat (map (\<lambda>kv. map (deserializeFromStorage rt)
                 (map snd (filter (\<lambda>a. getProp ''recordingId'' (snd a) = Str (fst kv)) (analyses w))))
                  (filter (\<lambda>r. getProp ''projectId'' (snd r) = Str (fst p)) (recordings w)))) sel)"
  have all: "getAllProjects rt w = map (deserializeFromStorage rt) (map snd sel)"
    by (simp add: getAllProjects_def cur)
  have run: "exportAllData rt w = Inr (getAllProjects rt w, ?R, ?A)"
    unfolding exportAllData_def
    by (simp only: all exportProjects_ok [OF sr ok]) simp
  have ps: "set (getAllProjects rt w) = (\<lambda>p. deserializeFromStorage rt (snd p)) ` set (projects w)"
    unfolding all using sel by (auto simp del: deserialize_Obj)
  define d where "d = deserializeFromStorage rt"
  define pid where "pid = (\<lambda>r :: string \<times> jsval. getProp ''projectId'' (snd r))"
  define rid where "rid = (\<lambda>a :: string \<times> jsval. getProp ''recordingId'' (snd a))"
  have reachR: "set (filter (reachableRecording w) (recordings w)) =
      {r \<in> set (recordings w). \<exists>p \<in> set (projects w). pid r = Str (fst p)}"
    by (simp add: reachableRecording_def list_ex_iff pid_def del: getProp.simps)
  have reachA: "set (filter (reachableAnalysis w) (analyses w)) =
      {a \<in> set (analyses w). \<exists>r \<in> set (recordings w).
          (\<exists>p \<in> set (projects w). pid r = Str (fst p)) \<and> rid a = Str (fst r)}"
    by (simp add: reachableAnalysis_def reachableRecording_def list_ex_iff pid_def rid_def
          del: getProp.simps)
  have "set ?R = (\<Union>p \<in> set sel. (\<lambda>kv. withoutBlob (d (snd kv))) `
                    {r \<in> set (recordings w). pid r = Str (fst p)})"
    unfolding d_def pid_def by (rule set_concat_filter)
  also have "\<dots> = (\<lambda>r. withoutBlob (d (snd r))) `
                    {r \<in> set (recordings w). \<exists>p \<in> set (projects w). pid r = Str (fst p)}"
    unfolding sel by blast
  finally have rs: "set ?R = (\<lambda>r. withoutBlob (deserializeFromStorage rt (snd r)))
                   ` set (filter (reachableRecording w) (recordings w))"
    unfolding reachR d_def .
  have "set ?A = (\<Union>p \<in> set sel. \<Union>r \<in> {r \<in> set (recordings w). pid r = Str (fst p)}.
                    (\<lambda>a. d (snd a)) ` {a \<in> set (analyses w). rid a = Str (fst r)})"
    unfolding d_def pid_def rid_def by (rule set_concat_nested)
  also have "\<dots> = (\<lambda>a. d (snd a)) `
      {a \<in> set (analyses w). \<exists>r \<in> set (recordings w).
          (\<exists>p \<in> set (projects w). pid r = Str (fst p)) \<and> rid a = Str (fst r)}"
    unfolding sel by blast
  finally have as: "set ?A = (\<lambda>a. deserializeFromStorage rt (snd a))
                   ` set (filter (reachableAnalysis w) (analyses w))"
    unfolding reachA d_def .
  have blob: "getProp k (withoutBlob (deserializeFromStorage rt (snd r))) =
             (if k = ''audioBlob'' then Undefined else getProp k (deserializeFromStorage rt (snd r)))"
    if "r \<in> set (recordings w)" for r k
  proof -
    from sr that have "recordOk r" by (simp add: storeOk_def list_all_iff)
    then obtain fs where "snd r = Obj fs"
      by (cases "snd r") (simp_all add: recordOk_def)
    then show ?thesis
      by (simp only: deserialize_Obj getProp_withoutBlob)
  qed
  from blob have blob': "\<forall>r \<in> set (recordings w). \<forall>k.
           getProp k (withoutBlob (deserializeFromStorage rt (snd r))) =
             (if k = ''audioBlob'' then Undefined
              else getProp k (deserializeFromStorage rt (snd r)))"
    by blast
  show ?thesis
    by (intro exI conjI, rule run, rule ps, rule rs, rule as, rule blob')
qed

lemma strayWorld_built:
  "snd (createRecording referenceRuntime
     [(''projectId'', Str ''2023-11-14T22:13:20 Acme''), (''name'', Str ''call-2''),
      (''audioBlob'', Blob [82, 73, 70, 70] ''audio/webm''), (''mimeType'', Str ''audio/webm''),
      (''duration'', Num 60), (''source'', Str ''realtime'')] sampleWorld) = strayWorld"
  by code_simp

text \<open>
  C7 as stated fails: the corpus holds two recordings and two analyses, and the export
  holds one of each. The recording whose \<^verbatim>\<open>projectId\<close> names no project and the analysis
  whose \<^verbatim>\<open>recordingId\<close> names no recording are left out.
\<close>

theorem exportAllData_omits_counterexample:
  "map fst (recordings strayWorld) = [''1700000000003_k3f9x1'', ''1700000000010_k3f9x4'']
   \<and> map fst (analyses strayWorld) = [''1700000000006_k3f9x2'', ''1700000000008_k3f9x3'']
   \<and> (case exportAllData referenceRuntime strayWorld of
         Inl e \<Rightarrow> False
       | Inr (ps, rs, as) \<Rightarrow>
           map (getProp ''id'') rs = [Str ''1700000000003_k3f9x1'']
           \<and> map (getProp ''id'') as = [Str ''1700000000006_k3f9x2''])"
  by code_simp


theorem exportAllData_reachable_witness:
  "storeOk (projects strayWorld) \<and> storeOk (recordings strayWorld)
   \<and> indexedByUpdatedAt (projects strayWorld)
   \<and> (\<exists>ps rs as. exportAllData referenceRuntime strayWorld = Inr (ps, rs, as)
     \<and> set ps = (\<lambda>p. deserializeFromStorage referenceRuntime (snd p)) ` set (projects strayWorld)
     \<and> set rs = (\<lambda>r. withoutBlob (deserializeFromStorage referenceRuntime (snd r)))
                   ` set (filter (reachableRecording strayWorld) (recordings strayWorld))
     \<and> set as = (\<lambda>a. deserializeFromStorage referenceRuntime (snd a))
                   ` set (filter (reachableAnalysis strayWorld) (analyses strayWorld))
     \<and> (\<forall>r \<in> set (recordings strayWorld). \<forall>k.
           getProp k (withoutBlob (deserializeFromStorage referenceRuntime (snd r))) =
             (if k = ''audioBlob'' then Undefined
              else getProp k (deserializeFromStorage referenceRuntime (snd r)))))
   \<and> map fst (filter (reachableRecording strayWorld) (recordings strayWorld))
         = [''1700000000003_k3f9x1'']
   \<and> map fst (filter (reachableAnalysis strayWorld) (analyses strayWorld))
         = [''1700000000006_k3f9x2'']"
proof -
  have h1: "storeOk (projects strayWorld)" by code_simp
  have h2: "storeOk (recordings strayWorld)" by code_simp
  have h3: "indexedByUpdatedAt (projects strayWorld)" by code_simp
  have r: "map fst (filter (reachableRecording strayWorld) (recordings strayWorld))
         = [''1700000000003_k3f9x1'']"
    by code_simp
  have a: "map fst (filter (reachableAnalysis strayWorld) (analyses strayWorld))
         = [''1700000000006_k3f9x2'']"
    by code_simp
  from exportAllData_reachable [OF h1 h2 h3, of referenceRuntime] h1 h2 h3 r a
  show ?thesis by (intro conjI)
qed

section \<open>Creation under a project\<close>

lemma createRecording_unfold:
  "createRecording rt input w =
     (case blobSize (getProp ''audioBlob'' (Obj input)) of
        Inl e \<Rightarrow> (Inl e, w\<lparr>clockReads := Suc (Suc (clockReads w)),
                            randomDraws := Suc (randomDraws w)\<rparr>)
      | Inr fileSize \<Rightarrow>
         (case linkRecording rt (getProp ''projectId'' (Obj input)) (nextId rt w)
                 (w\<lparr>clockReads := Suc (Suc (clockReads w)),
                    randomDraws := Suc (randomDraws w)\<rparr>) of
            (Inl e, w3) \<Rightarrow> (Inl e, w3)
          | (Inr u, w3) \<Rightarrow>
              (case idbAdd (Obj (jsonFields rt (recordingFields rt input w fileSize)))
                      (recordings w3) of
                 Inl e \<Rightarrow> (Inl e, w3)
               | Inr st \<Rightarrow>
                   (Inr (Obj (recordingFields rt input w fileSize)), w3\<lparr>recordings := st\<rparr>))))"
proof -
  have ids: "showInt (clock rt (Suc (clockReads w))) @ CHR ''_'' # random rt (randomDraws w)
               = nextId rt w"
    by (simp add: nextId_unfold)
  show ?thesis
    unfolding createRecording_def newDate_def generateId_def recordingFields_def
    by (simp add: ids Let_def serialize_Obj del: getProp.simps split del: if_split
          split: sum.split prod.split)
qed


lemma map_of_replace:
  "hasKey p st \<Longrightarrow> map_of (map (\<lambda>kv. if fst kv = p then (p, v) else kv) st) p = Some v"
  by (induction st) (auto simp: hasKey_def)

lemma linked_fields:
  assumes "linked w p"
  obtains project xs where "map_of (projects w) p = Some project"
    "getProp ''recordingIds'' project = Arr xs" "distinct xs"
    "set xs = set (map (\<lambda>kv. Str (fst kv))
               (filter (\<lambda>kv. getProp ''projectId'' (snd kv) = Str p) (recordings w)))"
  using assms unfolding linked_def
  by (auto split: option.splits jsval.splits simp del: getProp.simps)

lemma idbAdd_Inr:
  assumes "idbAdd (Obj fs) st = Inr st'"
  obtains k where "map_of fs ''id'' = Some (Str k)" "\<not> hasKey k st"
    "st' = insort_key fst (k, Obj fs) st"
  using assms unfolding idbAdd_def
  by (auto split: jsval.splits option.splits if_splits)


lemma jsonValue_strs:
  "list_all isStr xs \<Longrightarrow> jsonValue rt (Arr xs) = Some (Arr xs)"
  by (simp add: strs_json)

text \<open>
  C3. Let \<^verbatim>\<open>p\<close> be the id of a stored project whose \<^verbatim>\<open>recordingIds\<close> holds, without
  duplicates, exactly the ids of the stored recordings whose \<^verbatim>\<open>projectId\<close> is \<^verbatim>\<open>p\<close>.
  After a \<^verbatim>\<open>createRecording\<close> with that \<^verbatim>\<open>projectId\<close> has resolved,
  \<^verbatim>\<open>getProject(p).recordingIds\<close> is the list it was before with the id of the new
  Recording appended. That id was the key of no recording before and is the key of one
  now, so the list holds it exactly once and has no duplicates, and it is again exactly
  the ids of the stored recordings whose \<^verbatim>\<open>projectId\<close> is \<^verbatim>\<open>p\<close>.
\<close>

theorem createRecording_links:
  assumes sp: "storeOk (projects w)"
    and inv: "linked w p"
    and pid: "getProp ''projectId'' (Obj input) = Str p"
    and run: "createRecording rt input w = (Inr r, w')"
  shows "\<exists>xs before after.
      getProject rt (Str p) w = Inr before \<and>
      getProp ''recordingIds'' before = Arr xs \<and>
      getProject rt (Str p) w' = Inr after \<and>
      getProp ''recordingIds'' after = Arr (xs @ [Str (nextId rt w)]) \<and>
      getProp ''id'' r = Str (nextId rt w) \<and>
      getProp ''projectId'' r = Str p \<and>
      map_of (recordings w) (nextId rt w) = None \<and>
      hasKey (nextId rt w) (recordings w') \<and>
      count_list (xs @ [Str (nextId rt w)]) (Str (nextId rt w)) = 1 \<and>
      distinct (xs @ [Str (nextId rt w)]) \<and>
      set (xs @ [Str (nextId rt w)]) =
        set (map (\<lambda>kv. Str (fst kv))
               (filter (\<lambda>kv. getProp ''projectId'' (snd kv) = Str p) (recordings w'))) \<and>
      linked w' p"
proof -
  define rid where "rid = nextId rt w"
  define w2 where "w2 = w\<lparr>clockReads := Suc (Suc (clockReads w)),
                          randomDraws := Suc (randomDraws w)\<rparr>"
  from inv obtain project xs where m0: "map_of (projects w) p = Some project"
    and rx0: "getProp ''recordingIds'' project = Arr xs" and dx: "distinct xs"
    and sx: "set xs = set (map (\<lambda>kv. Str (fst kv))
               (filter (\<lambda>kv. getProp ''projectId'' (snd kv) = Str p) (recordings w)))"
    by (rule linked_fields)
  from storeOk_lookup [OF sp m0] obtain fs where pj: "project = Obj fs"
    and dfs: "distinct (map fst fs)" and idf: "map_of fs ''id'' = Some (Str p)"
    and niso: "\<not> isoLike p"
    by (auto elim: recordOk_fields)
  have m: "map_of (projects w) p = Some (Obj fs)" using m0 pj by simp
  have rx: "map_of fs ''recordingIds'' = Some (Arr xs)"
    using rx0 pj by (auto split: option.splits)
  have strs: "list_all isStr xs" using sx by (auto simp: list_all_iff)
  then have strs': "list_all isStr (xs @ [Str rid])" by simp
  define D where "D = decodeFields rt fs"
  have dD: "distinct (map fst D)" by (simp add: D_def keys_decodeFields dfs)
  have before: "getProject rt (Str p) w = Inr (Obj D)"
    by (simp add: getProject_def idbGet_def found_def m D_def)
  have rD: "map_of D ''recordingIds'' = Some (Arr xs)"
    by (simp add: D_def map_of_decodeFields rx decodeProp_strs [OF strs])
  have idD: "map_of D ''id'' = Some (Str p)"
    by (simp add: D_def map_of_decodeFields idf decodeProp_Str [OF niso])
  define I where "I = setProp ''recordingIds'' (Arr (xs @ [Str rid])) D"
  have dI: "distinct (map fst I)" by (simp add: I_def distinct_setProp dD)
  have idI: "map_of I ''id'' = Some (Str p)" by (simp add: I_def map_of_setProp idD)
  have rI: "map_of I ''recordingIds'' = Some (Arr (xs @ [Str rid]))"
    by (simp add: I_def map_of_setProp)
  have idk: "map_of (assign (decodeFields rt fs) I) ''id'' = Some (Str p)"
    by (rule map_of_assign_distinct [OF dI idI])
  have rA: "map_of (assign (decodeFields rt fs) I) ''recordingIds'' = Some (Arr (xs @ [Str rid]))"
    by (rule map_of_assign_distinct [OF dI rI])
  define U where "U = setProp ''updatedAt'' (Date (ValidDate (clock rt (clockReads w2))))
                        (assign (decodeFields rt fs) I)"
  have dU: "distinct (map fst U)"
    by (simp add: U_def distinct_setProp distinct_assign keys_decodeFields dfs)
  have rU: "map_of U ''recordingIds'' = Some (Arr (xs @ [Str rid]))"
    by (simp add: U_def map_of_setProp rA)
  have rJ: "map_of (jsonFields rt U) ''recordingIds'' = Some (Arr (xs @ [Str rid]))"
    by (simp only: map_of_jsonFields [OF dU] rU option.case jsonValue_strs [OF strs'])
  have sp2: "storeOk (projects w2)" using sp by (simp add: w2_def)
  have m2: "map_of (projects w2) p = Some (Obj fs)" using m by (simp add: w2_def)
  define w3 where "w3 = w2\<lparr>clockReads := Suc (clockReads w2),
      projects := map (\<lambda>kv. if fst kv = p then (p, Obj (jsonFields rt U)) else kv) (projects w2)\<rparr>"
  have up: "updateProject rt (Str p) I w2 = (Inr (Obj U), w3)"
    using updateProject_existing [OF sp2 m2 idk] by (simp add: U_def w3_def)
  have g2: "getProject rt (Str p) w2 = Inr (Obj D)"
    by (simp add: getProject_def idbGet_def found_def m2 D_def)
  have link: "linkRecording rt (Str p) rid w2 = (Inr (), w3)"
    by (simp add: linkRecording_def g2 rD up [unfolded I_def])
  have rec3: "recordings w3 = recordings w" by (simp add: w3_def w2_def)
  have pro3: "projects w3 =
      map (\<lambda>kv. if fst kv = p then (p, Obj (jsonFields rt U)) else kv) (projects w)"
    by (simp add: w3_def w2_def)
  from run obtain fileSize st' where
    add: "idbAdd (Obj (jsonFields rt (recordingFields rt input w fileSize))) (recordings w3) = Inr st'"
    and r: "r = Obj (recordingFields rt input w fileSize)"
    and w': "w' = w3\<lparr>recordings := st'\<rparr>"
    unfolding createRecording_unfold
    by (auto simp: pid link rid_def [symmetric] w2_def [symmetric]
          split: sum.splits simp del: getProp.simps)
  define stored where "stored = Obj (jsonFields rt (recordingFields rt input w fileSize))"
  have sid: "getProp ''id'' stored = Str rid"
    by (simp add: stored_def recordingFields_def jsonFields_Cons rid_def
          del: getProp.simps) simp
  have spid: "getProp ''projectId'' stored = Str p"
    by (simp add: stored_def recordingFields_def jsonFields_Cons pid del: getProp.simps) simp
  from add have fresh: "\<not> hasKey rid (recordings w)"
    and st': "st' = insort_key fst (rid, stored) (recordings w)"
    using sid unfolding idbAdd_def stored_def [symmetric] rec3
    by (auto split: if_splits simp del: getProp.simps)
  have rec': "recordings w' = insort_key fst (rid, stored) (recordings w)"
    by (simp add: w' st')
  have pro': "projects w' =
      map (\<lambda>kv. if fst kv = p then (p, Obj (jsonFields rt U)) else kv) (projects w)"
    by (simp add: w' pro3)
  have m': "map_of (projects w') p = Some (Obj (jsonFields rt U))"
    unfolding pro' by (rule map_of_replace [OF map_of_hasKey [OF m]])
  have after: "getProject rt (Str p) w' = Inr (Obj (decodeFields rt (jsonFields rt U)))"
    by (simp add: getProject_def idbGet_def found_def m')
  have c1: "getProp ''recordingIds'' (Obj D) = Arr xs" by (simp add: rD)
  have c2: "getProp ''recordingIds'' (Obj (decodeFields rt (jsonFields rt U))) = Arr (xs @ [Str rid])"
    by (simp add: map_of_decodeFields rJ decodeProp_strs [OF strs'])
  have c3: "getProp ''id'' r = Str rid"
    by (simp add: r recordingFields_def rid_def)
  have c4: "getProp ''projectId'' r = Str p"
    by (simp add: r recordingFields_def pid del: getProp.simps) simp
  have c5: "map_of (recordings w) rid = None" by (rule not_hasKey_map_of [OF fresh])
  have c6: "hasKey rid (recordings w')"
    by (simp add: rec' hasKey_def set_insort_key)
  have notin: "Str rid \<notin> set xs"
    using fresh unfolding sx hasKey_def by auto
  then have c7: "count_list (xs @ [Str rid]) (Str rid) = 1" by (simp add: count_list_0_iff)
  have c8: "distinct (xs @ [Str rid])" using dx notin by simp
  have c9: "set (xs @ [Str rid]) =
        set (map (\<lambda>kv. Str (fst kv))
               (filter (\<lambda>kv. getProp ''projectId'' (snd kv) = Str p) (recordings w')))"
  proof -
    have "set (filter (\<lambda>kv. getProp ''projectId'' (snd kv) = Str p)
                 (insort_key fst (rid, stored) (recordings w))) =
          insert (rid, stored)
            (set (filter (\<lambda>kv. getProp ''projectId'' (snd kv) = Str p) (recordings w)))"
      using spid by (auto simp: set_insort_key simp del: getProp.simps)
    then have "set (map (\<lambda>kv. Str (fst kv))
                 (filter (\<lambda>kv. getProp ''projectId'' (snd kv) = Str p)
                    (insort_key fst (rid, stored) (recordings w)))) =
          insert (Str rid) (set xs)"
      unfolding sx by (simp only: set_map image_insert fst_conv)
    then show ?thesis unfolding rec' by simp
  qed
  have c10: "linked w' p"
    unfolding linked_def m' option.case
    using c8 c9 rJ by simp
  show ?thesis
    unfolding rid_def [symmetric]
    by (intro exI conjI, rule before, rule c1, rule after, rule c2, rule c3, rule c4,
        rule c5, rule c6, rule c7, rule c8, rule c9, rule c10)
qed


text \<open>
  On the sample corpus: a second recording under ``Acme Co'' is listed after the first.
\<close>

theorem createRecording_links_witness:
  "storeOk (projects sampleWorld)
   \<and> linked sampleWorld acmeId
   \<and> getProp ''projectId'' (Obj secondInput) = Str acmeId
   \<and> (\<exists>r w' after.
         createRecording referenceRuntime secondInput sampleWorld = (Inr r, w')
       \<and> getProject referenceRuntime (Str acmeId) w' = Inr after
       \<and> getProp ''recordingIds'' after = Arr [Str callId, Str ''1700000000010_k3f9x4'']
       \<and> getProp ''id'' r = Str ''1700000000010_k3f9x4''
       \<and> linked w' acmeId)"
proof -
  have h1: "storeOk (projects sampleWorld)" by code_simp
  have h2: "linked sampleWorld acmeId" by code_simp
  have h3: "getProp ''projectId'' (Obj secondInput) = Str acmeId"
    by (simp add: secondInput_def acmeId_def)
  have n: "nextId referenceRuntime sampleWorld = ''1700000000010_k3f9x4''" by code_simp
  have "\<not> isl (fst (createRecording referenceRuntime secondInput sampleWorld))" by code_simp
  then obtain r w' where
    run: "createRecording referenceRuntime secondInput sampleWorld = (Inr r, w')"
    by (cases "createRecording referenceRuntime secondInput sampleWorld")
       (metis fst_conv isl_def sum.exhaust)
  have b: "getProject referenceRuntime (Str acmeId) sampleWorld =
             Inr (deserializeFromStorage referenceRuntime (snd (projects sampleWorld ! 0)))"
    by code_simp
  have bx: "getProp ''recordingIds''
              (deserializeFromStorage referenceRuntime (snd (projects sampleWorld ! 0))) =
            Arr [Str callId]"
    by code_simp
  from createRecording_links [OF h1 h2 h3 run]
  obtain xs before after where
    p1: "getProject referenceRuntime (Str acmeId) sampleWorld = Inr before"
    and p2: "getProp ''recordingIds'' before = Arr xs"
    and p3: "getProject referenceRuntime (Str acmeId) w' = Inr after"
    and p4: "getProp ''recordingIds'' after = Arr (xs @ [Str (nextId referenceRuntime sampleWorld)])"
    and p5: "getProp ''id'' r = Str (nextId referenceRuntime sampleWorld)"
    and p6: "linked w' acmeId"
    by blast
  from p1 b have "before = deserializeFromStorage referenceRuntime (snd (projects sampleWorld ! 0))"
    by simp
  with p2 bx have "xs = [Str callId]" by simp
  with p4 n have p4': "getProp ''recordingIds'' after = Arr [Str callId, Str ''1700000000010_k3f9x4'']"
    by simp
  from p5 n have p5': "getProp ''id'' r = Str ''1700000000010_k3f9x4''" by simp
  have "\<exists>r w' after.
         createRecording referenceRuntime secondInput sampleWorld = (Inr r, w')
       \<and> getProject referenceRuntime (Str acmeId) w' = Inr after
       \<and> getProp ''recordingIds'' after = Arr [Str callId, Str ''1700000000010_k3f9x4'']
       \<and> getProp ''id'' r = Str ''1700000000010_k3f9x4''
       \<and> linked w' acmeId"
    by (intro exI conjI, rule run, rule p3, rule p4', rule p5', rule p6)
  with h1 h2 h3 show ?thesis by (intro conjI)
qed

end
